theory Spec2Isabelle
  imports Complex_Main
begin

section \<open>Text\<close>

text \<open>
  A Python \<open>str\<close> is a sequence of Unicode code points. The literals of
  \<open>server.py\<close> carry symbols beyond ASCII (the cross mark, the warning sign
  followed by a variation selector, the check mark, the mailbox, the alarm clock),
  so a string is a list of code points and the ASCII part of a literal is
  written through \<open>ascii\<close>.
\<close>

type_synonym str = "nat list"

definition ascii :: "string \<Rightarrow> str" where
  "ascii s = map of_char s"

text \<open>The code points for which \<open>str.isspace\<close> holds.\<close>

definition isspace :: "nat \<Rightarrow> bool" where
  "isspace c \<longleftrightarrow>
     (9 \<le> c \<and> c \<le> 13) \<or> (28 \<le> c \<and> c \<le> 32) \<or> c = 0x85 \<or> c = 0xA0 \<or>
     c = 0x1680 \<or> (0x2000 \<le> c \<and> c \<le> 0x200A) \<or> c = 0x2028 \<or> c = 0x2029 \<or>
     c = 0x202F \<or> c = 0x205F \<or> c = 0x3000"

text \<open>\<open>s.strip()\<close>: whitespace removed from both ends.\<close>

definition strip :: "str \<Rightarrow> str" where
  "strip s = rev (dropWhile isspace (rev (dropWhile isspace s)))"

text \<open>\<open>s.startswith(p)\<close>.\<close>

definition startswith :: "str \<Rightarrow> str \<Rightarrow> bool" where
  "startswith s p \<longleftrightarrow> take (length p) s = p"

text \<open>\<open>sep.join(parts)\<close>.\<close>

fun join :: "str \<Rightarrow> str list \<Rightarrow> str" where
  "join sep [] = []"
| "join sep [p] = p"
| "join sep (p # q # ps) = p @ sep @ join sep (q # ps)"

text \<open>\<open>str(n)\<close> for a non-negative integer: its decimal digits.\<close>

fun str_nat :: "nat \<Rightarrow> str" where
  "str_nat n = (if n < 10 then [48 + n] else str_nat (n div 10) @ [48 + n mod 10])"

declare str_nat.simps [simp del]

section \<open>Configuration files\<close>

text \<open>
  What \<open>json.load\<close> returns. An object is the parsed dictionary, its keys
  distinct; a float is the rational it denotes.
\<close>

datatype json =
    JNull
  | JBool bool
  | JInt int
  | JFloat rat
  | JStr str
  | JArr "json list"
  | JObj "(str \<times> json) list"

text \<open>The exceptions that reading the configuration files can raise.\<close>

datatype error = OSError | JSONDecodeError | AttributeError | TypeError | KeyError

text \<open>
  \<open>d.get(key, default)\<close>: on a dictionary the value or the default; any other
  JSON value has no attribute \<open>get\<close>.
\<close>

fun py_get :: "json \<Rightarrow> str \<Rightarrow> json \<Rightarrow> error + json" where
  "py_get (JObj kvs) k d = Inr (case map_of kvs k of Some v \<Rightarrow> v | None \<Rightarrow> d)"
| "py_get _ k d = Inl AttributeError"

text \<open>
  The \<open>timeouts\<close> dictionary of a configuration. Both dictionary displays that
  ever produce one (\<open>DEFAULT_CONFIG\<close> and the merge in \<open>load_client_config\<close>)
  hold the three default keys, which are therefore fields; keys that only the
  file supplies are kept in \<open>other_timeouts\<close>.
\<close>

record timeouts =
  send_message_and_wait_timeout :: json
  get_messages_timeout :: json
  message_expiration_timeout :: json
  other_timeouts :: "(str \<times> json) list"

record config =
  max_tokens :: json
  max_iterations :: json
  timeouts :: timeouts

definition DEFAULT_TIMEOUTS :: timeouts where
  "DEFAULT_TIMEOUTS =
     \<lparr>send_message_and_wait_timeout = JFloat 180,
      get_messages_timeout = JFloat 60,
      message_expiration_timeout = JFloat 300,
      other_timeouts = []\<rparr>"

definition DEFAULT_CONFIG :: config where
  "DEFAULT_CONFIG =
     \<lparr>max_tokens = JInt 4096, max_iterations = JInt 10, timeouts = DEFAULT_TIMEOUTS\<rparr>"

text \<open>
  \<open>{**DEFAULT_CONFIG["timeouts"], **t}\<close>: the entries of \<open>t\<close> override the
  defaults; unpacking anything but a dictionary raises \<open>TypeError\<close>.
\<close>

definition default_keys :: "str list" where
  "default_keys =
     [ascii ''send_message_and_wait'', ascii ''get_messages'', ascii ''message_expiration'']"

fun merge_timeouts :: "json \<Rightarrow> error + timeouts" where
  "merge_timeouts (JObj kvs) =
     Inr \<lparr>send_message_and_wait_timeout =
            (case map_of kvs (ascii ''send_message_and_wait'') of
               Some v \<Rightarrow> v | None \<Rightarrow> send_message_and_wait_timeout DEFAULT_TIMEOUTS),
          get_messages_timeout =
            (case map_of kvs (ascii ''get_messages'') of
               Some v \<Rightarrow> v | None \<Rightarrow> get_messages_timeout DEFAULT_TIMEOUTS),
          message_expiration_timeout =
            (case map_of kvs (ascii ''message_expiration'') of
               Some v \<Rightarrow> v | None \<Rightarrow> message_expiration_timeout DEFAULT_TIMEOUTS),
          other_timeouts = filter (\<lambda>(k, v). k \<notin> set default_keys) kvs\<rparr>"
| "merge_timeouts _ = Inl TypeError"

text \<open>
  The dictionary that \<open>load_client_config\<close> returns for the file whose
  \<open>my_id\<close> matched; every \<open>get\<close> on a \<open>message_config\<close> that is no
  dictionary raises.
\<close>

definition build_config :: "json \<Rightarrow> error + config" where
  "build_config cfg =
     (case py_get cfg (ascii ''message_config'') (JObj []) of
        Inl e \<Rightarrow> Inl e
      | Inr message_config \<Rightarrow>
          (case py_get message_config (ascii ''max_tokens'') (max_tokens DEFAULT_CONFIG) of
             Inl e \<Rightarrow> Inl e
           | Inr mt \<Rightarrow>
               (case py_get message_config (ascii ''max_iterations'')
                       (max_iterations DEFAULT_CONFIG) of
                  Inl e \<Rightarrow> Inl e
                | Inr mi \<Rightarrow>
                    (case py_get message_config (ascii ''timeouts'') (JObj []) of
                       Inl e \<Rightarrow> Inl e
                     | Inr t \<Rightarrow>
                         (case merge_timeouts t of
                            Inl e \<Rightarrow> Inl e
                          | Inr ts \<Rightarrow>
                              Inr \<lparr>max_tokens = mt, max_iterations = mi,
                                   timeouts = ts\<rparr>)))))"

text \<open>
  What the walk from the working directory towards the root meets in one
  directory: no \<open>mcp_recipients.json\<close>, a file that \<open>open\<close> or
  \<open>json.load\<close> fails on, or a file with its parsed content.
\<close>

datatype dir_entry = NoFile | Unreadable error | Loaded json

text \<open>
  The file system as \<open>load_client_config\<close> sees it: \<open>Path.cwd()\<close> raises, or
  the directories from the working directory upwards, the root excluded (the loop
  stops when the current directory is its own parent).
\<close>

datatype filesystem = CwdFails error | Walk "dir_entry list"

text \<open>The \<open>while\<close> loop inside the \<open>try\<close>: \<open>Inl\<close> is a raised exception,
  \<open>Inr None\<close> the loop running out of directories.\<close>

fun scan_dirs :: "dir_entry list \<Rightarrow> str \<Rightarrow> error + config option" where
  "scan_dirs [] client_id = Inr None"
| "scan_dirs (NoFile # ds) client_id = scan_dirs ds client_id"
| "scan_dirs (Unreadable e # ds) client_id = Inl e"
| "scan_dirs (Loaded cfg # ds) client_id =
     (case py_get cfg (ascii ''my_id'') JNull of
        Inl e \<Rightarrow> Inl e
      | Inr my_id \<Rightarrow>
          if my_id = JStr client_id
          then (case build_config cfg of Inl e \<Rightarrow> Inl e | Inr c \<Rightarrow> Inr (Some c))
          else scan_dirs ds client_id)"

fun load_client_config_body :: "filesystem \<Rightarrow> str \<Rightarrow> error + config option" where
  "load_client_config_body (CwdFails e) client_id = Inl e"
| "load_client_config_body (Walk ds) client_id = scan_dirs ds client_id"

text \<open>\<open>load_client_config\<close>: \<open>except Exception\<close> logs and falls through to
  \<open>return DEFAULT_CONFIG\<close>, as the exhausted loop does.\<close>

definition load_client_config :: "filesystem \<Rightarrow> str \<Rightarrow> config" where
  "load_client_config fs client_id =
     (case load_client_config_body fs client_id of
        Inl e \<Rightarrow> DEFAULT_CONFIG
      | Inr None \<Rightarrow> DEFAULT_CONFIG
      | Inr (Some c) \<Rightarrow> c)"

section \<open>The server and what surrounds it\<close>

text \<open>
  \<open>Message\<close> of \<open>models.py\<close>, with the three fields that \<open>send_message\<close>
  gives it and that the formatting reads; a time is a number of seconds.
\<close>

record message =
  from_client_id :: str
  content :: str
  timestamp :: rat

text \<open>
  The state of the queue backend: the mailboxes and the expiration window it was
  constructed with (\<open>message_expiration_seconds\<close>).
\<close>

record backend =
  queues :: "str \<rightharpoonup> message list"
  message_expiration_seconds :: rat

text \<open>
  The calls that leave the server object, in the order in which it issues them:
  the configuration lookup and the five methods of the queue backend.
\<close>

datatype event =
    LoadConfig str
  | Cleanup
  | Enqueue str message
  | Notify str
  | PopAll str
  | Wait str json

text \<open>
  \<open>MessagingServer\<close>: its backend, its \<open>client_configs\<close> dictionary, and the
  calls issued so far.
\<close>

record server =
  queue_backend :: backend
  client_configs :: "str \<rightharpoonup> config"
  history :: "event list"

text \<open>
  What a call reads from outside the server: the configuration files, the
  clock, what happens to the backend while the caller is suspended in
  \<open>wait_for_new_message\<close> (whether a notification arrived, and the backend as
  the other tasks left it), and the two renderings that the result strings embed:
  \<open>format_relative_time\<close> of \<open>models.py\<close> and the formatting of a timeout
  value inside an f-string.
\<close>

record env =
  files :: filesystem
  now :: rat
  waiter :: "str \<Rightarrow> json \<Rightarrow> backend \<Rightarrow> bool \<times> backend"
  format_relative_time :: "rat \<Rightarrow> str"
  format_value :: "json \<Rightarrow> str"

definition get_client_config :: "env \<Rightarrow> str \<Rightarrow> server \<Rightarrow> config \<times> server" where
  "get_client_config e client_id s =
     (case client_configs s client_id of
        None \<Rightarrow>
          (let c = load_client_config (files e) client_id
           in (c, s\<lparr>client_configs := (client_configs s)(client_id \<mapsto> c),
                     history := history s @ [LoadConfig client_id]\<rparr>))
      | Some c \<Rightarrow> (c, s))"

section \<open>The queue backend\<close>

text \<open>
  Modelled from the spec: \<open>queue_backends.py\<close> (\<open>InMemoryQueueBackend\<close>) is
  not among the sources. A message is expired when it is older than the
  expiration window.
\<close>

definition expired :: "rat \<Rightarrow> rat \<Rightarrow> message \<Rightarrow> bool" where
  "expired t window m \<longleftrightarrow> t - timestamp m > window"

text \<open>
  Modelled from the spec: \<open>cleanupExpired(now)\<close> removes, from every mailbox,
  the messages older than the configured expiration window.
\<close>

definition backend_cleanup_expired_messages :: "rat \<Rightarrow> backend \<Rightarrow> backend" where
  "backend_cleanup_expired_messages t b =
     b\<lparr>queues := (\<lambda>c. map_option
                      (filter (\<lambda>m. \<not> expired t (message_expiration_seconds b) m))
                      (queues b c))\<rparr>"

text \<open>
  Modelled from the spec: \<open>enqueue(recipient, message)\<close> appends to the
  recipient's mailbox and creates the mailbox if absent.
\<close>

definition backend_send_message :: "str \<Rightarrow> message \<Rightarrow> backend \<Rightarrow> backend" where
  "backend_send_message recipient m b =
     b\<lparr>queues := (queues b)(recipient \<mapsto>
          (case queues b recipient of None \<Rightarrow> [m] | Some ms \<Rightarrow> ms @ [m]))\<rparr>"

text \<open>
  Modelled from the spec: \<open>popAll(clientId)\<close> detaches and returns the entire
  current mailbox content, leaving it empty, and returns an empty sequence if
  none existed.
\<close>

definition backend_get_messages :: "str \<Rightarrow> backend \<Rightarrow> message list \<times> backend" where
  "backend_get_messages client_id b =
     (case queues b client_id of
        None \<Rightarrow> ([], b)
      | Some ms \<Rightarrow> (ms, b\<lparr>queues := (queues b)(client_id \<mapsto> [])\<rparr>))"

text \<open>The five backend calls as the server issues them, each one recorded.\<close>

definition cleanup_expired_messages :: "env \<Rightarrow> server \<Rightarrow> server" where
  "cleanup_expired_messages e s =
     s\<lparr>queue_backend := backend_cleanup_expired_messages (now e) (queue_backend s),
       history := history s @ [Cleanup]\<rparr>"

definition queue_send_message :: "str \<Rightarrow> message \<Rightarrow> server \<Rightarrow> server" where
  "queue_send_message recipient m s =
     s\<lparr>queue_backend := backend_send_message recipient m (queue_backend s),
       history := history s @ [Enqueue recipient m]\<rparr>"

text \<open>
  Modelled from the spec: \<open>notify(clientId)\<close> wakes the current waiters and
  leaves nothing behind; the mailboxes are untouched.
\<close>

definition notify_new_message :: "str \<Rightarrow> server \<Rightarrow> server" where
  "notify_new_message recipient s = s\<lparr>history := history s @ [Notify recipient]\<rparr>"

definition queue_get_messages :: "str \<Rightarrow> server \<Rightarrow> message list \<times> server" where
  "queue_get_messages client_id s =
     (case backend_get_messages client_id (queue_backend s) of
        (ms, b) \<Rightarrow> (ms, s\<lparr>queue_backend := b, history := history s @ [PopAll client_id]\<rparr>))"

text \<open>
  Modelled from the spec: \<open>wait(clientId, timeout)\<close> suspends the caller until
  a notify for the client or the timeout, and returns whether it was woken by a
  notification. Other tasks run meanwhile; whether a notification arrived and
  the backend as they left it are the environment's answer.
\<close>

definition wait_for_new_message :: "env \<Rightarrow> str \<Rightarrow> json \<Rightarrow> server \<Rightarrow> bool \<times> server" where
  "wait_for_new_message e client_id timeout s =
     (case waiter e client_id timeout (queue_backend s) of
        (arrived, b) \<Rightarrow>
          (arrived, s\<lparr>queue_backend := b, history := history s @ [Wait client_id timeout]\<rparr>))"

section \<open>The messaging server\<close>

definition format_messages_as_markdown :: "env \<Rightarrow> str \<Rightarrow> message list \<Rightarrow> str" where
  "format_messages_as_markdown e client_id messages =
     (let message_count = length messages;
          markdown_parts =
            [ascii ''## '' @ [0x1F4E8] @ ascii '' Messages for `'' @ client_id @ ascii ''` (''
               @ str_nat message_count @ ascii '' message''
               @ (if message_count \<noteq> 1 then ascii ''s'' else []) @ ascii '')'',
             []]
            @ concat (map (\<lambda>msg.
                [ascii ''**From:** `'' @ from_client_id msg @ ascii ''`  '',
                 ascii ''**Time:** '' @ format_relative_time e (timestamp msg) @ ascii ''  '',
                 ascii ''**Message:** '' @ content msg,
                 [],
                 ascii ''---'',
                 []]) messages)
      in join [10] markdown_parts)"

definition send_message :: "env \<Rightarrow> str \<Rightarrow> str \<Rightarrow> str \<Rightarrow> server \<Rightarrow> str \<times> server" where
  "send_message e sender_id recipient_id content' s =
     (case get_client_config e sender_id s of
        (cfg, s1) \<Rightarrow>
          (let s2 = cleanup_expired_messages e s1 in
           if strip sender_id = [] then
             ([0x274C] @ ascii '' **Error**: Sender ID cannot be empty'', s2)
           else if strip recipient_id = [] then
             ([0x274C] @ ascii '' **Error**: Recipient ID cannot be empty'', s2)
           else if strip content' = [] then
             ([0x26A0, 0xFE0F] @ ascii '' **Warning**: Sending empty message'', s2)
           else
             (let m = \<lparr>from_client_id = sender_id, content = content', timestamp = now e\<rparr>;
                  s3 = queue_send_message recipient_id m s2;
                  s4 = notify_new_message recipient_id s3
              in ([0x2705] @ ascii '' **Message sent successfully** to `'' @ recipient_id
                    @ ascii ''`'', s4))))"

definition send_message_and_wait ::
    "env \<Rightarrow> str \<Rightarrow> str \<Rightarrow> str \<Rightarrow> server \<Rightarrow> str \<times> server" where
  "send_message_and_wait e sender_id recipient_id content' s =
     (case get_client_config e sender_id s of
        (cfg, s1) \<Rightarrow>
          (let timeout = send_message_and_wait_timeout (timeouts cfg) in
           case send_message e sender_id recipient_id content' s1 of
             (send_result, s2) \<Rightarrow>
               if startswith send_result [0x274C] \<or> startswith send_result [0x26A0, 0xFE0F]
               then (send_result, s2)
               else
                 (case wait_for_new_message e sender_id timeout s2 of
                    (message_arrived, s3) \<Rightarrow>
                      if message_arrived then
                        (case queue_get_messages sender_id s3 of
                           (messages, s4) \<Rightarrow>
                             if messages \<noteq> [] then
                               (format_messages_as_markdown e sender_id messages, s4)
                             else
                               ([0x1F4ED] @ ascii '' **No response received** (queue was empty)'',
                                s4))
                      else
                        ([0x23F0] @ ascii '' **Timeout**: No response received within ''
                           @ format_value e timeout @ ascii '' seconds'', s3))))"

definition get_messages :: "env \<Rightarrow> str \<Rightarrow> server \<Rightarrow> str \<times> server" where
  "get_messages e client_id s =
     (case get_client_config e client_id s of
        (cfg, s1) \<Rightarrow>
          (let timeout = get_messages_timeout (timeouts cfg);
               s2 = cleanup_expired_messages e s1 in
           if strip client_id = [] then
             ([0x274C] @ ascii '' **Error**: Client ID cannot be empty'', s2)
           else
             (case queue_get_messages client_id s2 of
                (messages, s3) \<Rightarrow>
                  if messages = [] then
                    (case wait_for_new_message e client_id timeout s3 of
                       (message_arrived, s4) \<Rightarrow>
                         if message_arrived then
                           (case queue_get_messages client_id s4 of
                              (messages', s5) \<Rightarrow>
                                if messages' \<noteq> [] then
                                  (format_messages_as_markdown e client_id messages', s5)
                                else
                                  ([0x1F4ED] @ ascii '' **No messages** for you right now.'',
                                   s5))
                         else
                           ([0x1F4ED] @ ascii '' **No messages** for you right now.'', s4))
                  else (format_messages_as_markdown e client_id messages, s3))))"

section \<open>Callbacks\<close>

text \<open>How one POST attempt ends: \<open>raise_for_status\<close> passes, or one of the
  three \<open>except\<close> clauses catches.\<close>

datatype outcome = Success | TimeoutException | HTTPStatusError nat | OtherException

datatype loglevel = DEBUG | INFO | WARNING | ERROR

text \<open>What a delivery task does, in order. The URL is the entry of the
  subscriber list as the configuration file gave it, a string or not.\<close>

datatype action = Post json json | Sleep rat | Log loglevel

definition max_retries :: nat where
  "max_retries = 3"

definition retry_delays :: "rat list" where
  "retry_delays = [1, 2, 4]"

text \<open>
  The body of \<open>for attempt in range(max_retries)\<close> over the attempts still to
  run; \<open>net attempt\<close> is how the POST of that attempt ends. The delay is read
  only for \<open>attempt < max_retries - 1\<close>, an index inside \<open>retry_delays\<close>.
\<close>

fun attempts :: "(nat \<Rightarrow> outcome) \<Rightarrow> json \<Rightarrow> json \<Rightarrow> nat list \<Rightarrow> action list" where
  "attempts net url payload [] = [Log ERROR]"
| "attempts net url payload (attempt # rest) =
     Post url payload #
     (case net attempt of
        Success \<Rightarrow> [Log INFO]
      | _ \<Rightarrow>
          Log WARNING #
          (if attempt < max_retries - 1 then [Sleep (retry_delays ! attempt)] else [])
          @ attempts net url payload rest)"

definition fire_single_callback ::
    "(nat \<Rightarrow> outcome) \<Rightarrow> json \<Rightarrow> json \<Rightarrow> str \<Rightarrow> action list" where
  "fire_single_callback net url payload event_type =
     attempts net url payload [0 ..< max_retries]"

text \<open>
  The dictionary that \<open>load_callbacks_from_config\<close> builds: the entries are
  whatever JSON values the files hold.
\<close>

record callbacks =
  connect :: "json list"
  disconnect :: "json list"

text \<open>
  One \<open>*_recipients.json\<close> file that the glob of the working directory
  yields: \<open>open\<close> or \<open>json.load\<close> fails on it, or it has a parsed content.
\<close>

datatype file_content = Broken error | Content json

text \<open>
  The working directory as \<open>load_callbacks_from_config\<close> sees it:
  \<open>Path.cwd()\<close> raises, or the files that the glob yields, in its order. A glob
  that raises after some files leaves what those files gave, as the end of the
  list does: the outer \<open>except\<close> only logs.
\<close>

datatype listing = CwdGone error | Files "file_content list"

text \<open>\<open>p in t\<close> on two strings: \<open>p\<close> occurs in \<open>t\<close>.\<close>

fun occurs_in :: "str \<Rightarrow> str \<Rightarrow> bool" where
  "occurs_in p [] = (p = [])"
| "occurs_in p (x # xs) = (startswith (x # xs) p \<or> occurs_in p xs)"

text \<open>
  \<open>key in v\<close> for a string key: a key of a dictionary, an element of a list,
  a substring of a string; any other JSON value is not iterable.
\<close>

fun py_in :: "str \<Rightarrow> json \<Rightarrow> error + bool" where
  "py_in k (JObj kvs) = Inr (map_of kvs k \<noteq> None)"
| "py_in k (JArr xs) = Inr (JStr k \<in> set xs)"
| "py_in k (JStr t) = Inr (occurs_in k t)"
| "py_in k _ = Inl TypeError"

text \<open>\<open>v[key]\<close> for a string key: only a dictionary can be indexed by it.\<close>

fun py_index :: "json \<Rightarrow> str \<Rightarrow> error + json" where
  "py_index (JObj kvs) k = (case map_of kvs k of Some v \<Rightarrow> Inr v | None \<Rightarrow> Inl KeyError)"
| "py_index _ k = Inl TypeError"

text \<open>
  What one \<open>if key in file_callbacks:\<close> block adds to a list of the
  dictionary: the elements of a list value (\<open>extend\<close>), the value itself
  otherwise (\<open>append\<close>), nothing when the key is absent.
\<close>

definition added :: "json \<Rightarrow> str \<Rightarrow> error + json list" where
  "added file_callbacks k =
     (case py_in k file_callbacks of
        Inl e \<Rightarrow> Inl e
      | Inr False \<Rightarrow> Inr []
      | Inr True \<Rightarrow>
          (case py_index file_callbacks k of
             Inl e \<Rightarrow> Inl e
           | Inr (JArr xs) \<Rightarrow> Inr xs
           | Inr v \<Rightarrow> Inr [v]))"

text \<open>
  The inner \<open>try\<close> for one file, on the dictionary built so far: an exception
  is caught and logged, and what was added before it stays.
\<close>

fun scan_file :: "callbacks \<Rightarrow> file_content \<Rightarrow> callbacks" where
  "scan_file cbs (Broken e) = cbs"
| "scan_file cbs (Content cfg) =
     (case py_get cfg (ascii ''callbacks'') (JObj []) of
        Inl e \<Rightarrow> cbs
      | Inr file_callbacks \<Rightarrow>
          (case added file_callbacks (ascii ''connect'') of
             Inl e \<Rightarrow> cbs
           | Inr cs \<Rightarrow>
               (let cbs1 = cbs\<lparr>connect := connect cbs @ cs\<rparr> in
                case added file_callbacks (ascii ''disconnect'') of
                  Inl e \<Rightarrow> cbs1
                | Inr ds \<Rightarrow> cbs1\<lparr>disconnect := disconnect cbs1 @ ds\<rparr>)))"

text \<open>The \<open>for config_file in current_dir.glob(...)\<close> loop.\<close>

fun scan_files :: "callbacks \<Rightarrow> file_content list \<Rightarrow> callbacks" where
  "scan_files cbs [] = cbs"
| "scan_files cbs (f # fs) = scan_files (scan_file cbs f) fs"

text \<open>A list or a dictionary cannot be a dictionary key.\<close>

fun unhashable :: "json \<Rightarrow> bool" where
  "unhashable (JArr xs) = True"
| "unhashable (JObj kvs) = True"
| "unhashable _ = False"

text \<open>
  Equality of two dictionary keys: numbers, the booleans among them as 0 and
  1, are equal when their values are; other values are equal when they are the
  same.
\<close>

fun number :: "json \<Rightarrow> rat option" where
  "number (JInt i) = Some (of_int i)"
| "number (JFloat r) = Some r"
| "number (JBool b) = Some (if b then 1 else 0)"
| "number _ = None"

definition key_eq :: "json \<Rightarrow> json \<Rightarrow> bool" where
  "key_eq a b =
     (case (number a, number b) of
        (Some x, Some y) \<Rightarrow> x = y
      | (None, None) \<Rightarrow> a = b
      | _ \<Rightarrow> False)"

text \<open>
  \<open>list(dict.fromkeys(xs))\<close>: the keys in the order of their first
  insertion; \<open>TypeError\<close> when an element is unhashable.
\<close>

fun insert_keys :: "json list \<Rightarrow> json list \<Rightarrow> json list" where
  "insert_keys keys [] = keys"
| "insert_keys keys (x # xs) =
     insert_keys (if \<exists>k\<in>set keys. key_eq k x then keys else keys @ [x]) xs"

definition fromkeys :: "json list \<Rightarrow> error + json list" where
  "fromkeys xs =
     (if \<exists>x\<in>set xs. unhashable x then Inl TypeError else Inr (insert_keys [] xs))"

text \<open>
  \<open>load_callbacks_from_config\<close>: the two \<open>try\<close> blocks catch what reading
  raises; the removal of duplicates comes after them and raises to the caller.
\<close>

definition load_callbacks_from_config :: "listing \<Rightarrow> error + callbacks" where
  "load_callbacks_from_config dir =
     (let cbs = (case dir of
                   CwdGone e \<Rightarrow> \<lparr>connect = [], disconnect = []\<rparr>
                 | Files fs \<Rightarrow> scan_files \<lparr>connect = [], disconnect = []\<rparr> fs)
      in case fromkeys (connect cbs) of
           Inl e \<Rightarrow> Inl e
         | Inr c \<Rightarrow>
             (case fromkeys (disconnect cbs) of
                Inl e \<Rightarrow> Inl e
              | Inr d \<Rightarrow> Inr \<lparr>connect = c, disconnect = d\<rparr>))"

text \<open>\<open>callbacks.get(event_type, [])\<close>.\<close>

definition callbacks_get :: "callbacks \<Rightarrow> str \<Rightarrow> json list" where
  "callbacks_get cbs event_type =
     (if event_type = ascii ''connect'' then connect cbs
      else if event_type = ascii ''disconnect'' then disconnect cbs
      else [])"

text \<open>
  What \<open>fire_callbacks\<close> does before it returns: a log line, one
  \<open>create_task\<close> per URL, and \<open>await asyncio.gather\<close> on the tasks, which
  resumes the caller when every task has run to its end; \<open>Gather\<close> holds, for
  each awaited task, all that the task did.
\<close>

datatype emit_action =
  EmitLog loglevel | CreateTask json | Gather "(json \<times> action list) list"

text \<open>
  \<open>fire_callbacks\<close>: what it did, and how it ended: \<open>Inl\<close> is the exception
  that loading the subscriber lists raised, \<open>Inr ()\<close> the return of \<open>None\<close>;
  the list that \<open>gather\<close> returns is dropped.
\<close>

definition fire_callbacks ::
    "(json \<Rightarrow> nat \<Rightarrow> outcome) \<Rightarrow> listing \<Rightarrow> str \<Rightarrow> json
       \<Rightarrow> emit_action list \<times> (error + unit)" where
  "fire_callbacks net dir event_type payload =
     (case load_callbacks_from_config dir of
        Inl e \<Rightarrow> ([], Inl e)
      | Inr cbs \<Rightarrow>
          (let urls = callbacks_get cbs event_type in
           if urls = [] then ([EmitLog DEBUG], Inr ())
           else
             (let tasks = map (\<lambda>url. (url, fire_single_callback (net url) url payload
                                            event_type)) urls
              in (EmitLog INFO # map (\<lambda>t. CreateTask (fst t)) tasks
                    @ (if tasks \<noteq> [] then [Gather tasks] else []), Inr ()))))"

section \<open>Requests\<close>

text \<open>\<open>MessagingServer.__init__\<close>: no configuration cached, nothing called yet.\<close>

definition new_server :: "backend \<Rightarrow> server" where
  "new_server b = \<lparr>queue_backend = b, client_configs = Map.empty, history = []\<rparr>"

text \<open>
  The calls that reach the server object, each with the environment it runs
  in, and the server after one call and after a sequence of calls.
\<close>

datatype request =
    Send env str str str
  | SendAndWait env str str str
  | Receive env str
  | Config env str

fun serve :: "request \<Rightarrow> server \<Rightarrow> server" where
  "serve (Send e sender_id recipient_id content') s =
     snd (send_message e sender_id recipient_id content' s)"
| "serve (SendAndWait e sender_id recipient_id content') s =
     snd (send_message_and_wait e sender_id recipient_id content' s)"
| "serve (Receive e client_id) s = snd (get_messages e client_id s)"
| "serve (Config e client_id) s = snd (get_client_config e client_id s)"

fun serve_all :: "request list \<Rightarrow> server \<Rightarrow> server" where
  "serve_all [] s = s"
| "serve_all (r # rs) s = serve_all rs (serve r s)"

section \<open>Vocabulary of the properties\<close>

text \<open>The configuration lookup that a call for \<open>client_id\<close> causes: none when
  the client is in \<open>client_configs\<close>.\<close>

definition lookup_events :: "server \<Rightarrow> str \<Rightarrow> event list" where
  "lookup_events s client_id =
     (case client_configs s client_id of None \<Rightarrow> [LoadConfig client_id] | Some c \<Rightarrow> [])"

text \<open>The three checks of \<open>send_message\<close> all pass.\<close>

definition accepted :: "str \<Rightarrow> str \<Rightarrow> str \<Rightarrow> bool" where
  "accepted sender_id recipient_id content' \<longleftrightarrow>
     strip sender_id \<noteq> [] \<and> strip recipient_id \<noteq> [] \<and> strip content' \<noteq> []"

text \<open>The calls issued since the server was in state \<open>s\<close>.\<close>

definition issued :: "server \<Rightarrow> server \<Rightarrow> event list" where
  "issued s s' = drop (length (history s)) (history s')"

abbreviation sent_message :: "env \<Rightarrow> str \<Rightarrow> str \<Rightarrow> message" where
  "sent_message e sender_id content' \<equiv>
     \<lparr>from_client_id = sender_id, content = content', timestamp = now e\<rparr>"

abbreviation EMPTY_WARNING :: str where
  "EMPTY_WARNING \<equiv> [0x26A0, 0xFE0F] @ ascii '' **Warning**: Sending empty message''"

abbreviation NO_RESPONSE :: str where
  "NO_RESPONSE \<equiv> [0x1F4ED] @ ascii '' **No response received** (queue was empty)''"

abbreviation NO_MESSAGES :: str where
  "NO_MESSAGES \<equiv> [0x1F4ED] @ ascii '' **No messages** for you right now.''"

abbreviation TIMEOUT :: "env \<Rightarrow> json \<Rightarrow> str" where
  "TIMEOUT e t \<equiv> [0x23F0] @ ascii '' **Timeout**: No response received within ''
     @ format_value e t @ ascii '' seconds''"

abbreviation CLIENT_ID_EMPTY :: str where
  "CLIENT_ID_EMPTY \<equiv> [0x274C] @ ascii '' **Error**: Client ID cannot be empty''"

text \<open>
  The answer that \<open>wait_for_new_message\<close> gives inside
  \<open>send_message_and_wait\<close>: the wait is for the sender, with the sender's
  \<open>send_message_and_wait\<close> timeout, on the backend as \<open>send_message\<close> left it.
\<close>

definition reply_wait :: "env \<Rightarrow> str \<Rightarrow> str \<Rightarrow> str \<Rightarrow> server \<Rightarrow> bool \<times> backend" where
  "reply_wait e sender_id recipient_id content' s =
     waiter e sender_id
       (send_message_and_wait_timeout (timeouts (fst (get_client_config e sender_id s))))
       (queue_backend (snd (send_message e sender_id recipient_id content' s)))"

text \<open>The mailbox that the first \<open>get_messages\<close> call of the backend finds in
  \<open>get_messages\<close>: the client's, after the sweep.\<close>

definition first_pop :: "env \<Rightarrow> str \<Rightarrow> server \<Rightarrow> message list \<times> backend" where
  "first_pop e client_id s =
     backend_get_messages client_id
       (backend_cleanup_expired_messages (now e) (queue_backend s))"

text \<open>
  The answer that \<open>wait_for_new_message\<close> gives inside \<open>get_messages\<close>: the
  wait is for the client, with the client's \<open>get_messages\<close> timeout, on the
  backend as the first pop left it.
\<close>

definition receive_wait :: "env \<Rightarrow> str \<Rightarrow> server \<Rightarrow> bool \<times> backend" where
  "receive_wait e client_id s =
     waiter e client_id
       (get_messages_timeout (timeouts (fst (get_client_config e client_id s))))
       (snd (first_pop e client_id s))"

text \<open>A directory entry whose file names the client in \<open>my_id\<close>.\<close>

fun names_client :: "str \<Rightarrow> dir_entry \<Rightarrow> bool" where
  "names_client client_id (Loaded (JObj kvs)) =
     (map_of kvs (ascii ''my_id'') = Some (JStr client_id))"
| "names_client client_id _ = False"

text \<open>A parsed file whose \<open>message_config\<close>, or the \<open>timeouts\<close> in it, is
  present and is no dictionary.\<close>

definition malformed :: "(str \<times> json) list \<Rightarrow> bool" where
  "malformed kvs =
     (case map_of kvs (ascii ''message_config'') of
        None \<Rightarrow> False
      | Some (JObj mc) \<Rightarrow>
          (case map_of mc (ascii ''timeouts'') of
             None \<Rightarrow> False
           | Some (JObj t) \<Rightarrow> False
           | Some _ \<Rightarrow> True)
      | Some _ \<Rightarrow> True)"

text \<open>
  Reading the entry fails for the client: the file cannot be opened or parsed,
  its content is no dictionary, or it names the client and is malformed.
\<close>

fun read_fails :: "str \<Rightarrow> dir_entry \<Rightarrow> bool" where
  "read_fails client_id NoFile = False"
| "read_fails client_id (Unreadable e) = True"
| "read_fails client_id (Loaded (JObj kvs)) =
     (map_of kvs (ascii ''my_id'') = Some (JStr client_id) \<and> malformed kvs)"
| "read_fails client_id (Loaded _) = True"

section \<open>Sample inputs\<close>

definition alice :: str where "alice = ascii ''alice''"
definition bob :: str where "bob = ascii ''bob''"
definition blank :: str where "blank = ascii ''  ''"
definition hi :: str where "hi = ascii ''hi''"

text \<open>A message sent at time 0, and a backend with a five-minute window that
  holds it in bob's mailbox.\<close>

definition old_message :: message where
  "old_message = \<lparr>from_client_id = alice, content = hi, timestamp = 0\<rparr>"

definition stale_backend :: backend where
  "stale_backend =
     \<lparr>queues = [bob \<mapsto> [old_message]], message_expiration_seconds = 300\<rparr>"

definition empty_backend :: backend where
  "empty_backend = \<lparr>queues = Map.empty, message_expiration_seconds = 300\<rparr>"

text \<open>At time 1000, with no configuration file: every wait times out in
  \<open>quiet_env\<close>, and every wait is woken with the backend unchanged in
  \<open>woken_env\<close>.\<close>

definition quiet_env :: env where
  "quiet_env =
     \<lparr>files = Walk [], now = 1000, waiter = (\<lambda>c t b. (False, b)),
      format_relative_time = (\<lambda>t. ascii ''just now''),
      format_value = (\<lambda>v. ascii ''180.0'')\<rparr>"

definition woken_env :: env where
  "woken_env =
     \<lparr>files = Walk [], now = 1000, waiter = (\<lambda>c t b. (True, b)),
      format_relative_time = (\<lambda>t. ascii ''just now''),
      format_value = (\<lambda>v. ascii ''180.0'')\<rparr>"

text \<open>An endpoint that answers every POST with status 500, and one subscriber
  of the connect event.\<close>

definition refusing_net :: "json \<Rightarrow> nat \<Rightarrow> outcome" where
  "refusing_net url attempt = HTTPStatusError 500"

definition subscriber :: json where "subscriber = JStr (ascii ''http://h/cb'')"

definition one_subscriber :: listing where
  "one_subscriber =
     Files [Content (JObj [(ascii ''callbacks'',
              JObj [(ascii ''connect'', JArr [subscriber, subscriber])])])]"

text \<open>A file whose connect list holds a list.\<close>

definition nested_subscriber :: listing where
  "nested_subscriber =
     Files [Content (JObj [(ascii ''callbacks'',
              JObj [(ascii ''connect'', JArr [JArr [subscriber]])])])]"

text \<open>A configuration file in the working directory that names alice and sets
  her receive timeout.\<close>

definition alice_files :: filesystem where
  "alice_files =
     Walk [Loaded (JObj [(ascii ''my_id'', JStr alice),
       (ascii ''message_config'', JObj [(ascii ''timeouts'',
          JObj [(ascii ''get_messages'', JInt 5)])])])]"

definition alice_env :: env where
  "alice_env =
     \<lparr>files = alice_files, now = 1000, waiter = (\<lambda>c t b. (False, b)),
      format_relative_time = (\<lambda>t. ascii ''just now''),
      format_value = (\<lambda>v. ascii ''180.0'')\<rparr>"

section \<open>Callback delivery\<close>

lemma upt_max_retries: "[0 ..< max_retries] = [0, 1, 2]"
  by (simp add: max_retries_def upt_rec)

lemma attempts_fail_step:
  "net attempt \<noteq> Success \<Longrightarrow>
   attempts net url payload (attempt # rest) =
     Post url payload # Log WARNING #
     (if attempt < max_retries - 1 then [Sleep (retry_delays ! attempt)] else [])
     @ attempts net url payload rest"
  by (cases "net attempt") simp_all

text \<open>
  C4: a delivery to an endpoint on which every attempt fails makes exactly three
  POST attempts, sleeps 1 second between the first and the second and 2 seconds
  between the second and the third, logs the failure and returns; a delivery
  whose first attempt succeeds makes exactly one attempt.
\<close>

theorem fire_single_callback_retries:
  "((\<forall>n. net n \<noteq> Success) \<longrightarrow>
      fire_single_callback net url payload event_type =
        [Post url payload, Log WARNING, Sleep 1,
         Post url payload, Log WARNING, Sleep 2,
         Post url payload, Log WARNING, Log ERROR])
   \<and> (net 0 = Success \<longrightarrow>
      fire_single_callback net url payload event_type = [Post url payload, Log INFO])"
proof (intro conjI impI)
  assume fails: "\<forall>n. net n \<noteq> Success"
  show "fire_single_callback net url payload event_type =
        [Post url payload, Log WARNING, Sleep 1,
         Post url payload, Log WARNING, Sleep 2,
         Post url payload, Log WARNING, Log ERROR]"
    unfolding fire_single_callback_def upt_max_retries
    using fails
    by (simp add: attempts_fail_step max_retries_def retry_delays_def
          del: attempts.simps(2))
next
  assume "net 0 = Success"
  then show "fire_single_callback net url payload event_type = [Post url payload, Log INFO]"
    unfolding fire_single_callback_def upt_max_retries by simp
qed

theorem fire_single_callback_retries_witness:
  "(\<forall>n. (\<lambda>n. HTTPStatusError 500) n \<noteq> Success) \<and>
   fire_single_callback (\<lambda>n. HTTPStatusError 500) (JStr (ascii ''http://h/cb'')) JNull
       (ascii ''connect'') =
     [Post (JStr (ascii ''http://h/cb'')) JNull, Log WARNING, Sleep 1,
      Post (JStr (ascii ''http://h/cb'')) JNull, Log WARNING, Sleep 2,
      Post (JStr (ascii ''http://h/cb'')) JNull, Log WARNING, Log ERROR] \<and>
   (\<lambda>n::nat. Success) 0 = Success \<and>
   fire_single_callback (\<lambda>n. Success) (JStr (ascii ''http://h/cb'')) JNull
       (ascii ''connect'') =
     [Post (JStr (ascii ''http://h/cb'')) JNull, Log INFO]"
  using fire_single_callback_retries
          [of "\<lambda>n. HTTPStatusError 500" "JStr (ascii ''http://h/cb'')" JNull
              "ascii ''connect''"]
        fire_single_callback_retries
          [of "\<lambda>n. Success" "JStr (ascii ''http://h/cb'')" JNull "ascii ''connect''"]
  by simp

section \<open>Loading a client configuration\<close>

lemma scan_dirs_skip:
  "\<forall>d\<in>set pre. \<not> names_client client_id d \<Longrightarrow>
   (\<exists>e. scan_dirs (pre @ rest) client_id = Inl e) \<or>
   scan_dirs (pre @ rest) client_id = scan_dirs rest client_id"
proof (induction pre)
  case Nil
  then show ?case by simp
next
  case (Cons d pre)
  show ?case
  proof (cases d)
    case NoFile
    with Cons show ?thesis by simp
  next
    case (Unreadable e)
    then show ?thesis by simp
  next
    case (Loaded cfg)
    with Cons show ?thesis
      by (cases cfg) (auto split: option.splits)
  qed
qed

lemma build_config_malformed:
  assumes "malformed kvs"
  shows "\<exists>e. build_config (JObj kvs) = Inl e"
proof (cases "map_of kvs (ascii ''message_config'')")
  case None
  with assms show ?thesis by (simp add: malformed_def)
next
  case (Some v)
  show ?thesis
  proof (cases v)
    case (JObj mc)
    with assms Some obtain t where
      t: "map_of mc (ascii ''timeouts'') = Some t" "merge_timeouts t = Inl TypeError"
      by (auto simp: malformed_def split: option.splits json.splits)
    then show ?thesis
      by (simp add: build_config_def Some JObj)
  qed (simp_all add: build_config_def Some)
qed

lemma scan_dirs_read_fails:
  assumes rf: "read_fails client_id d"
  shows "\<exists>e. scan_dirs (d # post) client_id = Inl e"
proof (cases d)
  case NoFile
  with rf show ?thesis by simp
next
  case (Unreadable e)
  then show ?thesis by simp
next
  case (Loaded cfg)
  show ?thesis
  proof (cases cfg)
    case (JObj kvs)
    with rf Loaded have "map_of kvs (ascii ''my_id'') = Some (JStr client_id)" "malformed kvs"
      by simp_all
    moreover from this obtain e where "build_config (JObj kvs) = Inl e"
      using build_config_malformed by blast
    ultimately show ?thesis using Loaded JObj by simp
  qed (use Loaded in simp_all)
qed

text \<open>
  C8: the lookup of a client configuration returns a configuration for every
  file system and never raises. When the working directory cannot be read, when
  no directory on the way to the root holds a file naming the client, or when
  reading fails before such a file has been read in full, the result is
  \<open>DEFAULT_CONFIG\<close>, whose timeouts are 180 seconds for send-and-wait, 60 seconds
  for receive and 300 seconds for message expiration.
\<close>

theorem load_client_config_defaults:
  "load_client_config (CwdFails e) client_id = DEFAULT_CONFIG \<and>
   ((\<forall>d\<in>set ds. \<not> names_client client_id d) \<longrightarrow>
      load_client_config (Walk ds) client_id = DEFAULT_CONFIG) \<and>
   ((\<forall>d\<in>set pre. \<not> names_client client_id d) \<and> read_fails client_id d \<longrightarrow>
      load_client_config (Walk (pre @ d # post)) client_id = DEFAULT_CONFIG) \<and>
   send_message_and_wait_timeout (timeouts DEFAULT_CONFIG) = JFloat 180 \<and>
   get_messages_timeout (timeouts DEFAULT_CONFIG) = JFloat 60 \<and>
   message_expiration_timeout (timeouts DEFAULT_CONFIG) = JFloat 300"
proof (intro conjI impI)
  show "load_client_config (CwdFails e) client_id = DEFAULT_CONFIG"
    by (simp add: load_client_config_def)
next
  assume "\<forall>d\<in>set ds. \<not> names_client client_id d"
  from scan_dirs_skip [OF this, of "[]"]
  have "(\<exists>e. scan_dirs ds client_id = Inl e) \<or> scan_dirs ds client_id = Inr None"
    by simp
  then show "load_client_config (Walk ds) client_id = DEFAULT_CONFIG"
    by (auto simp: load_client_config_def)
next
  assume h: "(\<forall>d\<in>set pre. \<not> names_client client_id d) \<and> read_fails client_id d"
  then obtain e' where "scan_dirs (d # post) client_id = Inl e'"
    using scan_dirs_read_fails by blast
  with h scan_dirs_skip [of pre client_id "d # post"]
  have "\<exists>e. scan_dirs (pre @ d # post) client_id = Inl e"
    by auto
  then show "load_client_config (Walk (pre @ d # post)) client_id = DEFAULT_CONFIG"
    by (auto simp: load_client_config_def)
qed (simp_all add: DEFAULT_CONFIG_def DEFAULT_TIMEOUTS_def)

theorem load_client_config_defaults_witness:
  "\<not> names_client alice NoFile \<and>
   \<not> names_client alice (Loaded (JObj [(ascii ''my_id'', JStr bob)])) \<and>
   load_client_config (Walk [NoFile, Loaded (JObj [(ascii ''my_id'', JStr bob)])]) alice
     = DEFAULT_CONFIG \<and>
   read_fails alice (Unreadable JSONDecodeError) \<and>
   load_client_config
     (Walk ([NoFile] @ Unreadable JSONDecodeError #
        [Loaded (JObj [(ascii ''my_id'', JStr alice)])])) alice = DEFAULT_CONFIG"
  using load_client_config_defaults
          [of OSError alice "[NoFile, Loaded (JObj [(ascii ''my_id'', JStr bob)])]"
              "[NoFile]" "Unreadable JSONDecodeError"
              "[Loaded (JObj [(ascii ''my_id'', JStr alice)])]"]
  by (simp add: ascii_def alice_def bob_def)

text \<open>The file is read when it names the client and is well formed: the
  defaults are not all that the lookup can return.\<close>

lemma load_client_config_reads_file:
  "load_client_config
     (Walk [NoFile, Loaded (JObj [(ascii ''my_id'', JStr alice),
        (ascii ''message_config'', JObj [(ascii ''timeouts'',
           JObj [(ascii ''get_messages'', JInt 5)])])])]) alice =
   \<lparr>max_tokens = JInt 4096, max_iterations = JInt 10,
    timeouts = \<lparr>send_message_and_wait_timeout = JFloat 180,
      get_messages_timeout = JInt 5, message_expiration_timeout = JFloat 300,
      other_timeouts = []\<rparr>\<rparr>"
  by (simp add: load_client_config_def build_config_def ascii_def DEFAULT_CONFIG_def
        DEFAULT_TIMEOUTS_def default_keys_def alice_def)

section \<open>The configuration cache\<close>

lemma gcc_history:
  "history (snd (get_client_config e client_id s)) = history s @ lookup_events s client_id"
  by (simp add: get_client_config_def lookup_events_def Let_def split: option.splits)

lemma gcc_backend:
  "queue_backend (snd (get_client_config e client_id s)) = queue_backend s"
  by (simp add: get_client_config_def Let_def split: option.splits)

lemma gcc_cached:
  "client_configs (snd (get_client_config e client_id s)) client_id =
     Some (fst (get_client_config e client_id s))"
  by (simp add: get_client_config_def Let_def split: option.splits)

lemma gcc_hit:
  "client_configs s client_id = Some c \<Longrightarrow> get_client_config e client_id s = (c, s)"
  by (simp add: get_client_config_def)

lemma gcc_again:
  "get_client_config e' client_id (snd (get_client_config e client_id s)) =
     get_client_config e client_id s"
  using gcc_hit [OF gcc_cached] by simp

lemma gcc_keeps:
  "client_configs s client_id = Some c \<Longrightarrow>
   client_configs (snd (get_client_config e other s)) client_id = Some c"
  by (auto simp: get_client_config_def Let_def split: option.splits)

section \<open>The calls of the server\<close>

lemma wait_fst:
  "fst (wait_for_new_message e client_id t s) = fst (waiter e client_id t (queue_backend s))"
  by (simp add: wait_for_new_message_def case_prod_beta)

lemma wait_snd:
  "snd (wait_for_new_message e client_id t s) =
     s\<lparr>queue_backend := snd (waiter e client_id t (queue_backend s)),
       history := history s @ [Wait client_id t]\<rparr>"
  by (simp add: wait_for_new_message_def case_prod_beta)

lemma qgm_fst:
  "fst (queue_get_messages client_id s) = fst (backend_get_messages client_id (queue_backend s))"
  by (simp add: queue_get_messages_def case_prod_beta)

lemma qgm_snd:
  "snd (queue_get_messages client_id s) =
     s\<lparr>queue_backend := snd (backend_get_messages client_id (queue_backend s)),
       history := history s @ [PopAll client_id]\<rparr>"
  by (simp add: queue_get_messages_def case_prod_beta)

lemma send_message_result:
  "send_message e sender_id recipient_id content' s =
     (let s2 = cleanup_expired_messages e (snd (get_client_config e sender_id s)) in
      if strip sender_id = [] then
        ([0x274C] @ ascii '' **Error**: Sender ID cannot be empty'', s2)
      else if strip recipient_id = [] then
        ([0x274C] @ ascii '' **Error**: Recipient ID cannot be empty'', s2)
      else if strip content' = [] then (EMPTY_WARNING, s2)
      else
        ([0x2705] @ ascii '' **Message sent successfully** to `'' @ recipient_id @ ascii ''`'',
         notify_new_message recipient_id
           (queue_send_message recipient_id (sent_message e sender_id content') s2)))"
  by (simp add: send_message_def Let_def split: prod.splits)

lemma send_message_refused_prefix:
  "(startswith (fst (send_message e sender_id recipient_id content' s)) [0x274C] \<or>
    startswith (fst (send_message e sender_id recipient_id content' s)) [0x26A0, 0xFE0F])
   \<longleftrightarrow> \<not> accepted sender_id recipient_id content'"
  by (simp add: send_message_result Let_def startswith_def accepted_def)

lemma send_message_history:
  "history (snd (send_message e sender_id recipient_id content' s)) =
     history s @ lookup_events s sender_id @ [Cleanup] @
     (if accepted sender_id recipient_id content'
      then [Enqueue recipient_id (sent_message e sender_id content'), Notify recipient_id]
      else [])"
  by (simp add: send_message_result Let_def accepted_def cleanup_expired_messages_def
        queue_send_message_def notify_new_message_def gcc_history)

lemma send_message_backend:
  "queue_backend (snd (send_message e sender_id recipient_id content' s)) =
     (if accepted sender_id recipient_id content'
      then backend_send_message recipient_id (sent_message e sender_id content')
             (backend_cleanup_expired_messages (now e) (queue_backend s))
      else backend_cleanup_expired_messages (now e) (queue_backend s))"
  by (simp add: send_message_result Let_def accepted_def cleanup_expired_messages_def
        queue_send_message_def notify_new_message_def gcc_backend)

lemma send_message_configs:
  "client_configs (snd (send_message e sender_id recipient_id content' s)) =
     client_configs (snd (get_client_config e sender_id s))"
  by (simp add: send_message_result Let_def cleanup_expired_messages_def
        queue_send_message_def notify_new_message_def)

lemma send_message_after_lookup:
  "send_message e sender_id recipient_id content' (snd (get_client_config e sender_id s)) =
     send_message e sender_id recipient_id content' s"
  by (simp add: send_message_result gcc_again)

lemma saw_unfold:
  "send_message_and_wait e sender_id recipient_id content' s =
     (if \<not> accepted sender_id recipient_id content'
      then send_message e sender_id recipient_id content' s
      else
        (case wait_for_new_message e sender_id
                (send_message_and_wait_timeout
                   (timeouts (fst (get_client_config e sender_id s))))
                (snd (send_message e sender_id recipient_id content' s)) of
           (message_arrived, s3) \<Rightarrow>
             if message_arrived then
               (case queue_get_messages sender_id s3 of
                  (messages, s4) \<Rightarrow>
                    if messages \<noteq> [] then
                      (format_messages_as_markdown e sender_id messages, s4)
                    else (NO_RESPONSE, s4))
             else
               (TIMEOUT e (send_message_and_wait_timeout
                   (timeouts (fst (get_client_config e sender_id s)))), s3)))"
proof -
  obtain cfg s1 where g: "get_client_config e sender_id s = (cfg, s1)"
    by (cases "get_client_config e sender_id s")
  obtain r s2 where m: "send_message e sender_id recipient_id content' s = (r, s2)"
    by (cases "send_message e sender_id recipient_id content' s")
  have m1: "send_message e sender_id recipient_id content' s1 = (r, s2)"
    using send_message_after_lookup [of e sender_id recipient_id content' s] g m by simp
  have p: "(startswith r [0x274C] \<or> startswith r [0x26A0, 0xFE0F])
             \<longleftrightarrow> \<not> accepted sender_id recipient_id content'"
    using send_message_refused_prefix [of e sender_id recipient_id content' s] m by simp
  have t: "send_message_and_wait_timeout (timeouts (fst (get_client_config e sender_id s))) =
             send_message_and_wait_timeout (timeouts cfg)"
    using g by simp
  show ?thesis
    unfolding t unfolding send_message_and_wait_def g m
    using p by (simp add: m1 Let_def)
qed

lemma saw_refused:
  "\<not> accepted sender_id recipient_id content' \<Longrightarrow>
   send_message_and_wait e sender_id recipient_id content' s =
     send_message e sender_id recipient_id content' s"
  by (simp add: saw_unfold)

lemma saw_history:
  assumes "accepted sender_id recipient_id content'"
  shows "history (snd (send_message_and_wait e sender_id recipient_id content' s)) =
     history s @ lookup_events s sender_id @
     [Cleanup, Enqueue recipient_id (sent_message e sender_id content'), Notify recipient_id,
      Wait sender_id
        (send_message_and_wait_timeout (timeouts (fst (get_client_config e sender_id s))))] @
     (if fst (reply_wait e sender_id recipient_id content' s)
      then [PopAll sender_id] else [])"
  using assms
  by (simp add: saw_unfold case_prod_beta wait_fst wait_snd qgm_fst qgm_snd
        send_message_history reply_wait_def)

lemma saw_fst:
  assumes "accepted sender_id recipient_id content'"
  shows "fst (send_message_and_wait e sender_id recipient_id content' s) =
     (if fst (reply_wait e sender_id recipient_id content' s)
      then
        (if fst (backend_get_messages sender_id
                   (snd (reply_wait e sender_id recipient_id content' s))) \<noteq> []
         then format_messages_as_markdown e sender_id
                (fst (backend_get_messages sender_id
                   (snd (reply_wait e sender_id recipient_id content' s))))
         else NO_RESPONSE)
      else TIMEOUT e (send_message_and_wait_timeout
                        (timeouts (fst (get_client_config e sender_id s)))))"
  using assms
  by (simp add: saw_unfold case_prod_beta wait_fst wait_snd qgm_fst qgm_snd reply_wait_def)

lemma saw_configs:
  "client_configs (snd (send_message_and_wait e sender_id recipient_id content' s)) =
     client_configs (snd (get_client_config e sender_id s))"
  by (simp add: saw_unfold case_prod_beta wait_fst wait_snd qgm_fst qgm_snd
        send_message_configs)

lemma gm_blank:
  "strip client_id = [] \<Longrightarrow>
   get_messages e client_id s =
     (CLIENT_ID_EMPTY, cleanup_expired_messages e (snd (get_client_config e client_id s)))"
  by (simp add: get_messages_def Let_def case_prod_beta)

lemma gm_history:
  assumes "strip client_id \<noteq> []"
  shows "history (snd (get_messages e client_id s)) =
     history s @ lookup_events s client_id @ [Cleanup, PopAll client_id] @
     (if fst (first_pop e client_id s) \<noteq> [] then []
      else
        Wait client_id (get_messages_timeout (timeouts (fst (get_client_config e client_id s))))
        # (if fst (receive_wait e client_id s) then [PopAll client_id] else []))"
  using assms
  by (simp add: get_messages_def Let_def case_prod_beta wait_fst wait_snd qgm_fst qgm_snd
        cleanup_expired_messages_def gcc_history gcc_backend first_pop_def receive_wait_def)

lemma gm_fst:
  assumes "strip client_id \<noteq> []"
  shows "fst (get_messages e client_id s) =
     (if fst (first_pop e client_id s) \<noteq> []
      then format_messages_as_markdown e client_id (fst (first_pop e client_id s))
      else if fst (receive_wait e client_id s)
              \<and> fst (backend_get_messages client_id (snd (receive_wait e client_id s))) \<noteq> []
      then format_messages_as_markdown e client_id
             (fst (backend_get_messages client_id (snd (receive_wait e client_id s))))
      else NO_MESSAGES)"
  using assms
  by (simp add: get_messages_def Let_def case_prod_beta wait_fst wait_snd qgm_fst qgm_snd
        cleanup_expired_messages_def gcc_history gcc_backend first_pop_def receive_wait_def)

lemma gm_configs:
  "client_configs (snd (get_messages e client_id s)) =
     client_configs (snd (get_client_config e client_id s))"
  by (simp add: get_messages_def Let_def case_prod_beta wait_fst wait_snd qgm_fst qgm_snd
        cleanup_expired_messages_def)

section \<open>One lookup for each client\<close>

lemma serve_keeps:
  "client_configs s client_id = Some c \<Longrightarrow> client_configs (serve r s) client_id = Some c"
  by (cases r) (simp_all add: send_message_configs saw_configs gm_configs gcc_keeps)

lemma serve_all_keeps:
  "client_configs s client_id = Some c \<Longrightarrow>
   client_configs (serve_all rs s) client_id = Some c"
  by (induction rs arbitrary: s) (simp_all add: serve_keeps)

lemma gcc_configs_None:
  "client_configs (snd (get_client_config e a s)) c = None \<longleftrightarrow>
     c \<noteq> a \<and> client_configs s c = None"
  by (auto simp: get_client_config_def Let_def split: option.splits)

lemma once_step:
  assumes inv: "\<forall>c. count_list (history s) (LoadConfig c)
                      \<le> (if client_configs s c = None then 0 else 1)"
    and h: "history s' = history s @ lookup_events s a @ evs"
    and evs: "\<forall>c. LoadConfig c \<notin> set evs"
    and cfg: "client_configs s' = client_configs (snd (get_client_config e a s))"
  shows "\<forall>c. count_list (history s') (LoadConfig c)
               \<le> (if client_configs s' c = None then 0 else 1)"
proof
  fix c
  have z: "count_list evs (LoadConfig c) = 0"
    using evs by simp
  have l: "count_list (lookup_events s a) (LoadConfig c) =
             (if c = a \<and> client_configs s a = None then 1 else 0)"
    by (simp add: lookup_events_def split: option.splits)
  from inv have i: "count_list (history s) (LoadConfig c)
                      \<le> (if client_configs s c = None then 0 else 1)"
    by blast
  show "count_list (history s') (LoadConfig c)
          \<le> (if client_configs s' c = None then 0 else 1)"
    using i by (auto simp: h cfg z l gcc_configs_None)
qed

lemma serve_shape:
  "\<exists>e a evs. history (serve r s) = history s @ lookup_events s a @ evs \<and>
      (\<forall>c. LoadConfig c \<notin> set evs) \<and>
      client_configs (serve r s) = client_configs (snd (get_client_config e a s))"
proof (cases r)
  case (Send e sender_id recipient_id content')
  show ?thesis
    unfolding Send serve.simps send_message_history send_message_configs
    by (intro exI [of _ e] exI [of _ sender_id] exI conjI refl) (auto split: if_splits)
next
  case (SendAndWait e sender_id recipient_id content')
  show ?thesis
  proof (cases "accepted sender_id recipient_id content'")
    case True
    show ?thesis
      unfolding SendAndWait serve.simps saw_history [OF True] saw_configs
      by (intro exI [of _ e] exI [of _ sender_id] exI conjI refl) (auto split: if_splits)
  next
    case False
    show ?thesis
      unfolding SendAndWait serve.simps saw_refused [OF False] send_message_history
        send_message_configs
      by (intro exI [of _ e] exI [of _ sender_id] exI conjI refl) (auto split: if_splits)
  qed
next
  case (Receive e client_id)
  show ?thesis
  proof (cases "strip client_id = []")
    case True
    have "history (serve r s) = history s @ lookup_events s client_id @ [Cleanup]"
      by (simp add: Receive gm_blank [OF True] cleanup_expired_messages_def gcc_history)
    then show ?thesis
      unfolding Receive serve.simps gm_configs
      by (intro exI [of _ e] exI [of _ client_id] exI [of _ "[Cleanup]"])
        (simp add: Receive)
  next
    case False
    show ?thesis
      unfolding Receive serve.simps gm_history [OF False] gm_configs
      by (intro exI [of _ e] exI [of _ client_id] exI conjI refl) (auto split: if_splits)
  qed
next
  case (Config e client_id)
  show ?thesis
    unfolding Config serve.simps gcc_history
    by (intro exI [of _ e] exI [of _ client_id] exI [of _ "[]"]) simp
qed

lemma serve_once:
  assumes "\<forall>c. count_list (history s) (LoadConfig c)
                 \<le> (if client_configs s c = None then 0 else 1)"
  shows "\<forall>c. count_list (history (serve r s)) (LoadConfig c)
               \<le> (if client_configs (serve r s) c = None then 0 else 1)"
proof -
  obtain e a evs where
    "history (serve r s) = history s @ lookup_events s a @ evs"
    "\<forall>c. LoadConfig c \<notin> set evs"
    "client_configs (serve r s) = client_configs (snd (get_client_config e a s))"
    using serve_shape by blast
  with assms show ?thesis by (rule once_step)
qed

lemma serve_all_once:
  "\<forall>c. count_list (history s) (LoadConfig c)
          \<le> (if client_configs s c = None then 0 else 1) \<Longrightarrow>
   \<forall>c. count_list (history (serve_all rs s)) (LoadConfig c)
          \<le> (if client_configs (serve_all rs s) c = None then 0 else 1)"
proof (induction rs arbitrary: s)
  case Nil
  then show ?case by simp
next
  case (Cons r rs)
  from Cons.IH [OF serve_once [OF Cons.prems]] show ?case by simp
qed

text \<open>
  C9: the configuration lookup is performed at most once for each client: in
  the history of a server that started with an empty cache, whatever requests
  it has served, the lookup for a client occurs at most once. A call of
  \<open>get_client_config\<close> for a client that is not cached returns what
  \<open>load_client_config\<close> resolves from the files of that moment and issues
  that one lookup; a call for a cached client returns the cached value and
  changes nothing. Every call stores the configuration it returns, and after
  it, whatever requests are served in between and whatever the configuration
  files have become, a call for the same client returns that configuration and
  leaves the server as it is, its history included.
\<close>

theorem get_client_config_once:
  "count_list (history (serve_all rs (new_server b))) (LoadConfig client_id) \<le> 1 \<and>
   (client_configs s client_id = None \<longrightarrow>
      fst (get_client_config e client_id s) = load_client_config (files e) client_id \<and>
      issued s (snd (get_client_config e client_id s)) = [LoadConfig client_id]) \<and>
   (\<forall>c. client_configs s client_id = Some c \<longrightarrow>
      get_client_config e client_id s = (c, s)) \<and>
   client_configs (snd (get_client_config e client_id s)) client_id =
     Some (fst (get_client_config e client_id s)) \<and>
   get_client_config e' client_id (serve_all rs' (snd (get_client_config e client_id s))) =
     (fst (get_client_config e client_id s),
      serve_all rs' (snd (get_client_config e client_id s)))"
proof (intro conjI)
  have "\<forall>c. count_list (history (new_server b)) (LoadConfig c)
               \<le> (if client_configs (new_server b) c = None then 0 else 1)"
    by (simp add: new_server_def)
  from serve_all_once [OF this, of rs]
  have "count_list (history (serve_all rs (new_server b))) (LoadConfig client_id)
          \<le> (if client_configs (serve_all rs (new_server b)) client_id = None then 0 else 1)"
    by blast
  then show "count_list (history (serve_all rs (new_server b))) (LoadConfig client_id) \<le> 1"
    by (simp split: if_splits)
next
  show "client_configs s client_id = None \<longrightarrow>
      fst (get_client_config e client_id s) = load_client_config (files e) client_id \<and>
      issued s (snd (get_client_config e client_id s)) = [LoadConfig client_id]"
    by (simp add: get_client_config_def Let_def issued_def)
next
  show "\<forall>c. client_configs s client_id = Some c \<longrightarrow>
      get_client_config e client_id s = (c, s)"
    by (simp add: gcc_hit)
next
  show "client_configs (snd (get_client_config e client_id s)) client_id =
          Some (fst (get_client_config e client_id s))"
    by (rule gcc_cached)
next
  show "get_client_config e' client_id
          (serve_all rs' (snd (get_client_config e client_id s))) =
        (fst (get_client_config e client_id s),
         serve_all rs' (snd (get_client_config e client_id s)))"
    by (rule gcc_hit [OF serve_all_keeps [OF gcc_cached]])
qed

lemma alice_file_config:
  "load_client_config alice_files alice =
     \<lparr>max_tokens = JInt 4096, max_iterations = JInt 10,
      timeouts = \<lparr>send_message_and_wait_timeout = JFloat 180,
        get_messages_timeout = JInt 5, message_expiration_timeout = JFloat 300,
        other_timeouts = []\<rparr>\<rparr>"
  by (simp add: alice_files_def load_client_config_def build_config_def ascii_def
        DEFAULT_CONFIG_def DEFAULT_TIMEOUTS_def default_keys_def)

theorem get_client_config_once_witness:
  "client_configs (new_server empty_backend) alice = None \<and>
   fst (get_client_config alice_env alice (new_server empty_backend)) =
     \<lparr>max_tokens = JInt 4096, max_iterations = JInt 10,
      timeouts = \<lparr>send_message_and_wait_timeout = JFloat 180,
        get_messages_timeout = JInt 5, message_expiration_timeout = JFloat 300,
        other_timeouts = []\<rparr>\<rparr> \<and>
   issued (new_server empty_backend)
     (snd (get_client_config alice_env alice (new_server empty_backend))) =
     [LoadConfig alice] \<and>
   get_client_config quiet_env alice
     (snd (get_client_config alice_env alice (new_server empty_backend))) =
     (\<lparr>max_tokens = JInt 4096, max_iterations = JInt 10,
       timeouts = \<lparr>send_message_and_wait_timeout = JFloat 180,
         get_messages_timeout = JInt 5, message_expiration_timeout = JFloat 300,
         other_timeouts = []\<rparr>\<rparr>,
      snd (get_client_config alice_env alice (new_server empty_backend)))"
proof -
  have n: "client_configs (new_server empty_backend) alice = None"
    by (simp add: new_server_def)
  have f: "files alice_env = alice_files"
    by (simp add: alice_env_def)
  show ?thesis
    using get_client_config_once
            [where s = "new_server empty_backend" and e = alice_env and client_id = alice
               and e' = quiet_env and rs' = "[]"]
      n
    by (simp add: f alice_file_config prod_eq_iff)
qed

text \<open>The first call for a client does look the configuration up.\<close>

lemma get_client_config_first:
  "history (snd (get_client_config quiet_env alice (new_server empty_backend))) =
     [LoadConfig alice]"
  by (simp add: gcc_history lookup_events_def new_server_def)

section \<open>Sample evaluations\<close>

lemma strip_alice: "strip alice \<noteq> []"
  by (simp add: strip_def alice_def ascii_def isspace_def)

lemma strip_bob: "strip bob \<noteq> []"
  by (simp add: strip_def bob_def ascii_def isspace_def)

lemma strip_hi: "strip hi \<noteq> []"
  by (simp add: strip_def hi_def ascii_def isspace_def)

lemma strip_blank: "strip blank = []"
  by (simp add: strip_def blank_def ascii_def isspace_def)

lemma bob_not_alice: "bob \<noteq> alice" "alice \<noteq> bob"
  by (simp_all add: bob_def alice_def ascii_def)

lemma bob_not_blank: "bob \<noteq> blank" "blank \<noteq> bob"
  by (simp_all add: bob_def blank_def ascii_def)

lemma issued_append: "history s' = history s @ evs \<Longrightarrow> issued s s' = evs"
  by (simp add: issued_def)

lemma stale_sweep:
  "queues (backend_cleanup_expired_messages 1000 stale_backend) bob = Some []"
  by (simp add: backend_cleanup_expired_messages_def stale_backend_def expired_def
        old_message_def)

lemma stale_before: "queues (queue_backend (new_server stale_backend)) bob = Some [old_message]"
  by (simp add: new_server_def stale_backend_def)

lemma lookup_events_new: "lookup_events (new_server b) client_id = [LoadConfig client_id]"
  by (simp add: lookup_events_def new_server_def)

section \<open>Receiving with a blank client id\<close>

text \<open>
  C10: \<open>get_messages\<close> called with a client id that is empty or whitespace
  only returns the validation error and neither pops nor waits, but it has by
  then looked the configuration of that id up (and cached it) and swept the
  expired messages, so the backend is the swept one.
\<close>

theorem get_messages_blank_client:
  "strip client_id = [] \<longrightarrow>
     fst (get_messages e client_id s) = CLIENT_ID_EMPTY \<and>
     issued s (snd (get_messages e client_id s)) = lookup_events s client_id @ [Cleanup] \<and>
     queue_backend (snd (get_messages e client_id s)) =
       backend_cleanup_expired_messages (now e) (queue_backend s) \<and>
     client_configs (snd (get_messages e client_id s)) client_id =
       Some (fst (get_client_config e client_id s))"
proof
  assume b: "strip client_id = []"
  have h: "history (snd (get_messages e client_id s)) =
             history s @ lookup_events s client_id @ [Cleanup]"
    by (simp add: gm_blank [OF b] cleanup_expired_messages_def gcc_history)
  show "fst (get_messages e client_id s) = CLIENT_ID_EMPTY \<and>
     issued s (snd (get_messages e client_id s)) = lookup_events s client_id @ [Cleanup] \<and>
     queue_backend (snd (get_messages e client_id s)) =
       backend_cleanup_expired_messages (now e) (queue_backend s) \<and>
     client_configs (snd (get_messages e client_id s)) client_id =
       Some (fst (get_client_config e client_id s))"
    using issued_append [OF h]
    by (simp add: gm_blank [OF b] cleanup_expired_messages_def gcc_backend gcc_cached)
qed

theorem get_messages_blank_client_witness:
  "strip blank = [] \<and>
   fst (get_messages quiet_env blank (new_server stale_backend)) = CLIENT_ID_EMPTY \<and>
   issued (new_server stale_backend)
     (snd (get_messages quiet_env blank (new_server stale_backend))) =
     [LoadConfig blank, Cleanup] \<and>
   queues (queue_backend (new_server stale_backend)) bob = Some [old_message] \<and>
   queues (queue_backend (snd (get_messages quiet_env blank (new_server stale_backend)))) bob
     = Some []"
  using get_messages_blank_client [of blank quiet_env "new_server stale_backend"]
    strip_blank stale_sweep stale_before
  by (simp add: lookup_events_new) (simp add: quiet_env_def new_server_def)

section \<open>Sending\<close>

lemma pop_after_send:
  "fst (backend_get_messages recipient_id (backend_send_message recipient_id m b)) =
     (case queues b recipient_id of None \<Rightarrow> [m] | Some ms \<Rightarrow> ms @ [m])"
  by (simp add: backend_get_messages_def backend_send_message_def)

text \<open>
  C1, as the code has it: a send whose sender and recipient are not blank and
  whose content is empty or whitespace only returns the warning and enqueues
  nothing: the backend is the swept one, and no call but the configuration
  lookup and the sweep is issued.
\<close>

theorem send_message_blank_content:
  "strip sender_id \<noteq> [] \<and> strip recipient_id \<noteq> [] \<and> strip content' = [] \<longrightarrow>
     fst (send_message e sender_id recipient_id content' s) = EMPTY_WARNING \<and>
     queue_backend (snd (send_message e sender_id recipient_id content' s)) =
       backend_cleanup_expired_messages (now e) (queue_backend s) \<and>
     issued s (snd (send_message e sender_id recipient_id content' s)) =
       lookup_events s sender_id @ [Cleanup]"
proof
  assume a: "strip sender_id \<noteq> [] \<and> strip recipient_id \<noteq> [] \<and> strip content' = []"
  then have n: "\<not> accepted sender_id recipient_id content'"
    by (simp add: accepted_def)
  have h: "history (snd (send_message e sender_id recipient_id content' s)) =
             history s @ lookup_events s sender_id @ [Cleanup]"
    using n by (simp add: send_message_history)
  show "fst (send_message e sender_id recipient_id content' s) = EMPTY_WARNING \<and>
     queue_backend (snd (send_message e sender_id recipient_id content' s)) =
       backend_cleanup_expired_messages (now e) (queue_backend s) \<and>
     issued s (snd (send_message e sender_id recipient_id content' s)) =
       lookup_events s sender_id @ [Cleanup]"
    using a n issued_append [OF h]
    by (simp add: send_message_backend) (simp add: send_message_result Let_def)
qed

theorem send_message_blank_content_witness:
  "strip alice \<noteq> [] \<and> strip bob \<noteq> [] \<and> strip blank = [] \<and>
   fst (send_message quiet_env alice bob blank (new_server empty_backend)) = EMPTY_WARNING \<and>
   issued (new_server empty_backend)
     (snd (send_message quiet_env alice bob blank (new_server empty_backend))) =
     [LoadConfig alice, Cleanup]"
  using send_message_blank_content [of alice bob blank quiet_env "new_server empty_backend"]
    strip_alice strip_bob strip_blank
  by (simp add: lookup_events_new)

text \<open>The claim as the spec words it fails: after the send with blank content, a
  pop for the recipient returns nothing.\<close>

theorem send_message_blank_content_counterexample:
  "strip alice \<noteq> [] \<and> strip bob \<noteq> [] \<and> strip blank = [] \<and>
   fst (send_message quiet_env alice bob blank (new_server empty_backend)) = EMPTY_WARNING \<and>
   fst (queue_get_messages bob
          (snd (send_message quiet_env alice bob blank (new_server empty_backend)))) = []"
proof -
  have n: "\<not> accepted alice bob blank"
    by (simp add: accepted_def strip_blank)
  have "fst (queue_get_messages bob
          (snd (send_message quiet_env alice bob blank (new_server empty_backend)))) = []"
    using n
    by (simp add: qgm_fst send_message_backend backend_get_messages_def
          backend_cleanup_expired_messages_def new_server_def empty_backend_def)
  moreover have
    "fst (send_message quiet_env alice bob blank (new_server empty_backend)) = EMPTY_WARNING"
    by (simp add: send_message_result Let_def strip_alice strip_bob strip_blank)
  ultimately show ?thesis
    by (simp add: strip_alice strip_bob strip_blank)
qed

text \<open>
  C6, as the code has it: every send first resolves the sender's configuration
  and sweeps the expired messages, and validates after that; when sender,
  recipient and content all pass, it then enqueues the message for the recipient
  and only then notifies the recipient, so that a pop for the recipient on the
  backend as the notify finds it returns the message, last in the mailbox; when
  a check fails the sweep has been performed all the same, and nothing is
  enqueued or notified.
\<close>

theorem send_message_order:
  "issued s (snd (send_message e sender_id recipient_id content' s)) =
     lookup_events s sender_id @ [Cleanup] @
     (if strip sender_id \<noteq> [] \<and> strip recipient_id \<noteq> [] \<and> strip content' \<noteq> []
      then [Enqueue recipient_id (sent_message e sender_id content'), Notify recipient_id]
      else []) \<and>
   (strip sender_id \<noteq> [] \<and> strip recipient_id \<noteq> [] \<and> strip content' \<noteq> [] \<longrightarrow>
      fst (backend_get_messages recipient_id
             (queue_backend (snd (send_message e sender_id recipient_id content' s)))) \<noteq> [] \<and>
      last (fst (backend_get_messages recipient_id
             (queue_backend (snd (send_message e sender_id recipient_id content' s))))) =
        sent_message e sender_id content') \<and>
   (\<not> (strip sender_id \<noteq> [] \<and> strip recipient_id \<noteq> [] \<and> strip content' \<noteq> []) \<longrightarrow>
      queue_backend (snd (send_message e sender_id recipient_id content' s)) =
        backend_cleanup_expired_messages (now e) (queue_backend s))"
proof (intro conjI impI)
  have "history (snd (send_message e sender_id recipient_id content' s)) =
     history s @ (lookup_events s sender_id @ [Cleanup] @
     (if strip sender_id \<noteq> [] \<and> strip recipient_id \<noteq> [] \<and> strip content' \<noteq> []
      then [Enqueue recipient_id (sent_message e sender_id content'), Notify recipient_id]
      else []))"
    by (simp add: send_message_history accepted_def)
  then show "issued s (snd (send_message e sender_id recipient_id content' s)) =
     lookup_events s sender_id @ [Cleanup] @
     (if strip sender_id \<noteq> [] \<and> strip recipient_id \<noteq> [] \<and> strip content' \<noteq> []
      then [Enqueue recipient_id (sent_message e sender_id content'), Notify recipient_id]
      else [])"
    by (rule issued_append)
next
  assume "strip sender_id \<noteq> [] \<and> strip recipient_id \<noteq> [] \<and> strip content' \<noteq> []"
  then have a: "accepted sender_id recipient_id content'"
    by (simp add: accepted_def)
  show "fst (backend_get_messages recipient_id
             (queue_backend (snd (send_message e sender_id recipient_id content' s)))) \<noteq> []"
    using a by (simp add: send_message_backend pop_after_send split: option.splits)
  show "last (fst (backend_get_messages recipient_id
             (queue_backend (snd (send_message e sender_id recipient_id content' s))))) =
        sent_message e sender_id content'"
    using a by (simp add: send_message_backend pop_after_send split: option.splits)
next
  assume "\<not> (strip sender_id \<noteq> [] \<and> strip recipient_id \<noteq> [] \<and> strip content' \<noteq> [])"
  then have "\<not> accepted sender_id recipient_id content'"
    by (simp add: accepted_def)
  then show "queue_backend (snd (send_message e sender_id recipient_id content' s)) =
        backend_cleanup_expired_messages (now e) (queue_backend s)"
    by (simp add: send_message_backend)
qed

theorem send_message_order_witness:
  "strip alice \<noteq> [] \<and> strip bob \<noteq> [] \<and> strip hi \<noteq> [] \<and>
   issued (new_server stale_backend)
     (snd (send_message quiet_env alice bob hi (new_server stale_backend))) =
     [LoadConfig alice, Cleanup, Enqueue bob (sent_message quiet_env alice hi), Notify bob] \<and>
   last (fst (backend_get_messages bob
      (queue_backend (snd (send_message quiet_env alice bob hi (new_server stale_backend))))))
     = sent_message quiet_env alice hi \<and>
   \<not> (strip blank \<noteq> [] \<and> strip bob \<noteq> [] \<and> strip hi \<noteq> []) \<and>
   queue_backend (snd (send_message quiet_env blank bob hi (new_server stale_backend))) =
     backend_cleanup_expired_messages (now quiet_env) (queue_backend (new_server stale_backend))"
  using send_message_order [of "new_server stale_backend" quiet_env alice bob hi]
    send_message_order [of "new_server stale_backend" quiet_env blank bob hi]
    strip_alice strip_bob strip_hi strip_blank
  by (simp add: lookup_events_new)

text \<open>The order of the spec fails: the send below is rejected for its blank
  sender, and the sweep has emptied bob's mailbox all the same.\<close>

theorem send_message_order_counterexample:
  "strip blank = [] \<and>
   fst (send_message quiet_env blank bob hi (new_server stale_backend)) =
     [0x274C] @ ascii '' **Error**: Sender ID cannot be empty'' \<and>
   queues (queue_backend (new_server stale_backend)) bob = Some [old_message] \<and>
   queues (queue_backend
     (snd (send_message quiet_env blank bob hi (new_server stale_backend)))) bob = Some []"
proof -
  have n: "\<not> accepted blank bob hi"
    by (simp add: accepted_def strip_blank)
  have "queues (queue_backend
     (snd (send_message quiet_env blank bob hi (new_server stale_backend)))) bob = Some []"
    using n stale_sweep
    by (simp add: send_message_backend) (simp add: quiet_env_def new_server_def)
  moreover have "fst (send_message quiet_env blank bob hi (new_server stale_backend)) =
     [0x274C] @ ascii '' **Error**: Sender ID cannot be empty''"
    by (simp add: send_message_result Let_def strip_blank)
  ultimately show ?thesis
    using strip_blank stale_before by simp
qed

section \<open>Sending and waiting\<close>

lemma no_wait_in_lookup: "Wait c t \<notin> set (lookup_events s client_id)"
  by (simp add: lookup_events_def split: option.splits)

text \<open>
  C3, as the code has it: \<open>send_message_and_wait\<close> waits exactly when sender,
  recipient and content are all non-empty after trimming. When a check fails,
  blank content included, it returns what \<open>send_message\<close> returns and leaves the
  server as \<open>send_message\<close> leaves it, without a wait; otherwise it sends,
  notifies, and suspends on the wait for the sender with the sender's timeout.
\<close>

theorem send_message_and_wait_waits:
  "((\<exists>c t. Wait c t \<in> set (issued s
        (snd (send_message_and_wait e sender_id recipient_id content' s)))) \<longleftrightarrow>
      strip sender_id \<noteq> [] \<and> strip recipient_id \<noteq> [] \<and> strip content' \<noteq> []) \<and>
   (\<not> (strip sender_id \<noteq> [] \<and> strip recipient_id \<noteq> [] \<and> strip content' \<noteq> []) \<longrightarrow>
      send_message_and_wait e sender_id recipient_id content' s =
        send_message e sender_id recipient_id content' s) \<and>
   (strip sender_id \<noteq> [] \<and> strip recipient_id \<noteq> [] \<and> strip content' \<noteq> [] \<longrightarrow>
      issued s (snd (send_message_and_wait e sender_id recipient_id content' s)) =
        lookup_events s sender_id @
        [Cleanup, Enqueue recipient_id (sent_message e sender_id content'),
         Notify recipient_id,
         Wait sender_id
           (send_message_and_wait_timeout
              (timeouts (fst (get_client_config e sender_id s))))] @
        (if fst (reply_wait e sender_id recipient_id content' s)
         then [PopAll sender_id] else []))"
proof -
  have yes: "issued s (snd (send_message_and_wait e sender_id recipient_id content' s)) =
        lookup_events s sender_id @
        [Cleanup, Enqueue recipient_id (sent_message e sender_id content'),
         Notify recipient_id,
         Wait sender_id
           (send_message_and_wait_timeout
              (timeouts (fst (get_client_config e sender_id s))))] @
        (if fst (reply_wait e sender_id recipient_id content' s)
         then [PopAll sender_id] else [])"
    if "accepted sender_id recipient_id content'"
    by (rule issued_append) (simp add: saw_history [OF that])
  have no: "issued s (snd (send_message_and_wait e sender_id recipient_id content' s)) =
        lookup_events s sender_id @ [Cleanup]"
    if "\<not> accepted sender_id recipient_id content'"
    by (rule issued_append) (simp add: saw_refused [OF that] send_message_history that)
  have iff: "(\<exists>c t. Wait c t \<in> set (issued s
        (snd (send_message_and_wait e sender_id recipient_id content' s)))) \<longleftrightarrow>
      accepted sender_id recipient_id content'"
  proof (cases "accepted sender_id recipient_id content'")
    case True
    from yes [OF True] show ?thesis
      using True by auto
  next
    case False
    from no [OF False] show ?thesis
      using False by (simp add: no_wait_in_lookup)
  qed
  show ?thesis
    using iff yes saw_refused [of sender_id recipient_id content' e s]
    unfolding accepted_def by blast
qed

theorem send_message_and_wait_waits_witness:
  "\<not> (strip alice \<noteq> [] \<and> strip bob \<noteq> [] \<and> strip blank \<noteq> []) \<and>
   send_message_and_wait quiet_env alice bob blank (new_server empty_backend) =
     send_message quiet_env alice bob blank (new_server empty_backend) \<and>
   strip alice \<noteq> [] \<and> strip bob \<noteq> [] \<and> strip hi \<noteq> [] \<and>
   issued (new_server empty_backend)
     (snd (send_message_and_wait quiet_env alice bob hi (new_server empty_backend))) =
     [LoadConfig alice, Cleanup, Enqueue bob (sent_message quiet_env alice hi), Notify bob,
      Wait alice (JFloat 180)]"
proof -
  have t: "fst (get_client_config quiet_env alice (new_server empty_backend)) = DEFAULT_CONFIG"
    by (simp add: get_client_config_def new_server_def quiet_env_def load_client_config_def)
  have w: "\<not> fst (reply_wait quiet_env alice bob hi (new_server empty_backend))"
    by (simp add: reply_wait_def quiet_env_def)
  show ?thesis
    using send_message_and_wait_waits
            [of "new_server empty_backend" quiet_env alice bob blank]
          send_message_and_wait_waits
            [of "new_server empty_backend" quiet_env alice bob hi]
          strip_alice strip_bob strip_hi strip_blank w
    by (simp add: lookup_events_new t DEFAULT_CONFIG_def DEFAULT_TIMEOUTS_def)
qed

text \<open>The claim as the spec words it fails: with blank content the call returns
  the warning, and the sweep is the last call it issues.\<close>

theorem send_message_and_wait_waits_counterexample:
  "strip alice \<noteq> [] \<and> strip bob \<noteq> [] \<and> strip blank = [] \<and>
   fst (send_message_and_wait quiet_env alice bob blank (new_server empty_backend)) =
     EMPTY_WARNING \<and>
   issued (new_server empty_backend)
     (snd (send_message_and_wait quiet_env alice bob blank (new_server empty_backend))) =
     [LoadConfig alice, Cleanup]"
proof -
  have n: "\<not> accepted alice bob blank"
    by (simp add: accepted_def strip_blank)
  have h: "history (snd (send_message_and_wait quiet_env alice bob blank
                      (new_server empty_backend))) =
             history (new_server empty_backend) @ [LoadConfig alice, Cleanup]"
    using n by (simp add: saw_refused send_message_history lookup_events_new)
  have "fst (send_message_and_wait quiet_env alice bob blank (new_server empty_backend)) =
     EMPTY_WARNING"
    using n
    by (simp add: saw_refused) (simp add: send_message_result Let_def strip_alice strip_bob
          strip_blank)
  then show ?thesis
    using issued_append [OF h] strip_alice strip_bob strip_blank by simp
qed

section \<open>Receiving\<close>

text \<open>
  C7, as the code has it: a receive for a client id that is not blank looks the
  configuration up, sweeps, and pops the client's mailbox; when the pop returns
  messages it returns them, formatted, with no wait; when the pop returns none
  it waits for the client with the client's timeout, and then, when woken, pops
  once more and returns the messages or, if there are none, the "no messages"
  result, and when timed out returns the "no messages" result without a second
  pop.
\<close>

theorem get_messages_steps:
  "strip client_id \<noteq> [] \<longrightarrow>
     issued s (snd (get_messages e client_id s)) =
       lookup_events s client_id @ [Cleanup, PopAll client_id] @
       (if fst (first_pop e client_id s) \<noteq> [] then []
        else
          Wait client_id
            (get_messages_timeout (timeouts (fst (get_client_config e client_id s))))
          # (if fst (receive_wait e client_id s) then [PopAll client_id] else [])) \<and>
     fst (get_messages e client_id s) =
       (if fst (first_pop e client_id s) \<noteq> []
        then format_messages_as_markdown e client_id (fst (first_pop e client_id s))
        else if fst (receive_wait e client_id s)
                \<and> fst (backend_get_messages client_id (snd (receive_wait e client_id s)))
                    \<noteq> []
        then format_messages_as_markdown e client_id
               (fst (backend_get_messages client_id (snd (receive_wait e client_id s))))
        else NO_MESSAGES)"
proof
  assume n: "strip client_id \<noteq> []"
  have "issued s (snd (get_messages e client_id s)) =
       lookup_events s client_id @ [Cleanup, PopAll client_id] @
       (if fst (first_pop e client_id s) \<noteq> [] then []
        else
          Wait client_id
            (get_messages_timeout (timeouts (fst (get_client_config e client_id s))))
          # (if fst (receive_wait e client_id s) then [PopAll client_id] else []))"
    by (rule issued_append) (simp add: gm_history [OF n])
  then show "issued s (snd (get_messages e client_id s)) =
       lookup_events s client_id @ [Cleanup, PopAll client_id] @
       (if fst (first_pop e client_id s) \<noteq> [] then []
        else
          Wait client_id
            (get_messages_timeout (timeouts (fst (get_client_config e client_id s))))
          # (if fst (receive_wait e client_id s) then [PopAll client_id] else [])) \<and>
     fst (get_messages e client_id s) =
       (if fst (first_pop e client_id s) \<noteq> []
        then format_messages_as_markdown e client_id (fst (first_pop e client_id s))
        else if fst (receive_wait e client_id s)
                \<and> fst (backend_get_messages client_id (snd (receive_wait e client_id s)))
                    \<noteq> []
        then format_messages_as_markdown e client_id
               (fst (backend_get_messages client_id (snd (receive_wait e client_id s))))
        else NO_MESSAGES)"
    using gm_fst [OF n, of e s] by simp
qed

lemma first_pop_stale: "fst (first_pop quiet_env bob (new_server stale_backend)) = []"
  using stale_sweep
  by (simp add: first_pop_def backend_get_messages_def quiet_env_def new_server_def)

lemma first_pop_empty: "fst (first_pop e bob (new_server empty_backend)) = []"
  by (simp add: first_pop_def backend_get_messages_def new_server_def empty_backend_def
        backend_cleanup_expired_messages_def)

lemma default_for_new:
  "fst (get_client_config quiet_env client_id (new_server b)) = DEFAULT_CONFIG"
  "fst (get_client_config woken_env client_id (new_server b)) = DEFAULT_CONFIG"
  by (simp_all add: get_client_config_def new_server_def quiet_env_def woken_env_def
        load_client_config_def)

theorem get_messages_steps_witness:
  "strip bob \<noteq> [] \<and>
   issued (new_server stale_backend)
     (snd (get_messages quiet_env bob (new_server stale_backend))) =
     [LoadConfig bob, Cleanup, PopAll bob, Wait bob (JFloat 60)] \<and>
   fst (get_messages quiet_env bob (new_server stale_backend)) = NO_MESSAGES"
proof -
  have w: "\<not> fst (receive_wait quiet_env bob (new_server stale_backend))"
    by (simp add: receive_wait_def quiet_env_def)
  show ?thesis
    using get_messages_steps [of bob "new_server stale_backend" quiet_env]
      strip_bob first_pop_stale w
    by (simp add: lookup_events_new default_for_new DEFAULT_CONFIG_def DEFAULT_TIMEOUTS_def)
qed

text \<open>A message that was sent is what the recipient's next receive returns.\<close>

lemma send_then_receive:
  "fst (get_messages quiet_env bob
          (snd (send_message quiet_env alice bob hi (new_server empty_backend)))) =
     format_messages_as_markdown quiet_env bob [sent_message quiet_env alice hi]"
proof -
  have a: "accepted alice bob hi"
    by (simp add: accepted_def strip_alice strip_bob strip_hi)
  have "fst (first_pop quiet_env bob
          (snd (send_message quiet_env alice bob hi (new_server empty_backend)))) =
        [sent_message quiet_env alice hi]"
    using a
    by (simp add: first_pop_def send_message_backend backend_get_messages_def
          backend_send_message_def backend_cleanup_expired_messages_def new_server_def
          empty_backend_def expired_def quiet_env_def)
  then show ?thesis
    by (simp add: gm_fst [OF strip_bob])
qed

text \<open>The claim as the spec words it fails for a blank client id: the call
  sweeps and returns the validation error, which is not the "no messages"
  result, and it pops nothing.\<close>

theorem get_messages_steps_counterexample:
  "strip blank = [] \<and>
   fst (get_messages quiet_env blank (new_server empty_backend)) = CLIENT_ID_EMPTY \<and>
   fst (get_messages quiet_env blank (new_server empty_backend)) \<noteq> NO_MESSAGES \<and>
   issued (new_server empty_backend)
     (snd (get_messages quiet_env blank (new_server empty_backend))) =
     [LoadConfig blank, Cleanup]"
proof -
  have h: "history (snd (get_messages quiet_env blank (new_server empty_backend))) =
             history (new_server empty_backend) @ [LoadConfig blank, Cleanup]"
    by (simp add: gm_blank [OF strip_blank] cleanup_expired_messages_def gcc_history
          lookup_events_new)
  show ?thesis
    using issued_append [OF h] strip_blank
    by (simp add: gm_blank [OF strip_blank])
qed

section \<open>Timeout and empty reply\<close>

text \<open>
  C2, as the code has it: in \<open>send_message_and_wait\<close> the result of a wait
  that timed out and the result of a wait that was woken to an empty mailbox are
  never the same string, whatever the two calls and their environments; in
  \<open>get_messages\<close> the two outcomes are one and the same "no messages" result.
\<close>

theorem timeout_and_empty_reply:
  "(strip sender_id \<noteq> [] \<and> strip recipient_id \<noteq> [] \<and> strip content' \<noteq> [] \<and>
    \<not> fst (reply_wait e sender_id recipient_id content' s) \<and>
    strip sender_id' \<noteq> [] \<and> strip recipient_id' \<noteq> [] \<and> strip content'' \<noteq> [] \<and>
    fst (reply_wait e' sender_id' recipient_id' content'' s') \<and>
    fst (backend_get_messages sender_id'
           (snd (reply_wait e' sender_id' recipient_id' content'' s'))) = []
    \<longrightarrow>
      fst (send_message_and_wait e sender_id recipient_id content' s) \<noteq>
      fst (send_message_and_wait e' sender_id' recipient_id' content'' s')) \<and>
   (strip client_id \<noteq> [] \<and> fst (first_pop e client_id s) = [] \<and>
    \<not> fst (receive_wait e client_id s)
    \<longrightarrow> fst (get_messages e client_id s) = NO_MESSAGES) \<and>
   (strip client_id' \<noteq> [] \<and> fst (first_pop e' client_id' s') = [] \<and>
    fst (receive_wait e' client_id' s') \<and>
    fst (backend_get_messages client_id' (snd (receive_wait e' client_id' s'))) = []
    \<longrightarrow> fst (get_messages e' client_id' s') = NO_MESSAGES)"
proof (intro conjI impI)
  assume h: "strip sender_id \<noteq> [] \<and> strip recipient_id \<noteq> [] \<and> strip content' \<noteq> [] \<and>
    \<not> fst (reply_wait e sender_id recipient_id content' s) \<and>
    strip sender_id' \<noteq> [] \<and> strip recipient_id' \<noteq> [] \<and> strip content'' \<noteq> [] \<and>
    fst (reply_wait e' sender_id' recipient_id' content'' s') \<and>
    fst (backend_get_messages sender_id'
           (snd (reply_wait e' sender_id' recipient_id' content'' s'))) = []"
  then have a: "accepted sender_id recipient_id content'"
    and a': "accepted sender_id' recipient_id' content''"
    by (simp_all add: accepted_def)
  have "hd (fst (send_message_and_wait e sender_id recipient_id content' s)) = 0x23F0"
    using h by (simp add: saw_fst [OF a])
  moreover
  have "hd (fst (send_message_and_wait e' sender_id' recipient_id' content'' s')) = 0x1F4ED"
    using h by (simp add: saw_fst [OF a'])
  ultimately
  show "fst (send_message_and_wait e sender_id recipient_id content' s) \<noteq>
        fst (send_message_and_wait e' sender_id' recipient_id' content'' s')"
    by auto
next
  assume "strip client_id \<noteq> [] \<and> fst (first_pop e client_id s) = [] \<and>
    \<not> fst (receive_wait e client_id s)"
  then show "fst (get_messages e client_id s) = NO_MESSAGES"
    by (simp add: gm_fst)
next
  assume "strip client_id' \<noteq> [] \<and> fst (first_pop e' client_id' s') = [] \<and>
    fst (receive_wait e' client_id' s') \<and>
    fst (backend_get_messages client_id' (snd (receive_wait e' client_id' s'))) = []"
  then show "fst (get_messages e' client_id' s') = NO_MESSAGES"
    by (simp add: gm_fst)
qed

lemma reply_wait_quiet: "\<not> fst (reply_wait quiet_env alice bob hi (new_server empty_backend))"
  by (simp add: reply_wait_def quiet_env_def)

lemma reply_wait_woken:
  "fst (reply_wait woken_env alice bob hi (new_server empty_backend))"
  "fst (backend_get_messages alice
          (snd (reply_wait woken_env alice bob hi (new_server empty_backend)))) = []"
proof -
  have a: "accepted alice bob hi"
    by (simp add: accepted_def strip_alice strip_bob strip_hi)
  show "fst (reply_wait woken_env alice bob hi (new_server empty_backend))"
    by (simp add: reply_wait_def woken_env_def)
  have "snd (reply_wait woken_env alice bob hi (new_server empty_backend)) =
          queue_backend (snd (send_message woken_env alice bob hi (new_server empty_backend)))"
    by (simp add: reply_wait_def woken_env_def)
  then show "fst (backend_get_messages alice
          (snd (reply_wait woken_env alice bob hi (new_server empty_backend)))) = []"
    using a bob_not_alice
    by (simp add: send_message_backend backend_get_messages_def backend_send_message_def
          backend_cleanup_expired_messages_def new_server_def empty_backend_def)
qed

lemma receive_wait_quiet: "\<not> fst (receive_wait quiet_env bob (new_server empty_backend))"
  by (simp add: receive_wait_def quiet_env_def)

lemma receive_wait_woken:
  "fst (receive_wait woken_env bob (new_server empty_backend))"
  "fst (backend_get_messages bob
          (snd (receive_wait woken_env bob (new_server empty_backend)))) = []"
  by (simp_all add: receive_wait_def woken_env_def first_pop_def backend_get_messages_def
        new_server_def empty_backend_def backend_cleanup_expired_messages_def)

theorem timeout_and_empty_reply_witness:
  "strip alice \<noteq> [] \<and> strip bob \<noteq> [] \<and> strip hi \<noteq> [] \<and>
   \<not> fst (reply_wait quiet_env alice bob hi (new_server empty_backend)) \<and>
   fst (reply_wait woken_env alice bob hi (new_server empty_backend)) \<and>
   fst (backend_get_messages alice
          (snd (reply_wait woken_env alice bob hi (new_server empty_backend)))) = [] \<and>
   fst (send_message_and_wait quiet_env alice bob hi (new_server empty_backend)) \<noteq>
   fst (send_message_and_wait woken_env alice bob hi (new_server empty_backend)) \<and>
   fst (first_pop quiet_env bob (new_server empty_backend)) = [] \<and>
   \<not> fst (receive_wait quiet_env bob (new_server empty_backend)) \<and>
   fst (get_messages quiet_env bob (new_server empty_backend)) = NO_MESSAGES \<and>
   fst (first_pop woken_env bob (new_server empty_backend)) = [] \<and>
   fst (receive_wait woken_env bob (new_server empty_backend)) \<and>
   fst (backend_get_messages bob
          (snd (receive_wait woken_env bob (new_server empty_backend)))) = [] \<and>
   fst (get_messages woken_env bob (new_server empty_backend)) = NO_MESSAGES"
  using timeout_and_empty_reply
          [of alice bob hi quiet_env "new_server empty_backend"
              alice bob hi woken_env "new_server empty_backend" bob bob]
    strip_alice strip_bob strip_hi reply_wait_quiet reply_wait_woken
    receive_wait_quiet receive_wait_woken first_pop_empty
  by simp

text \<open>The claim as the spec words it fails for \<open>get_messages\<close>: the call
  whose wait timed out and the call whose wait was woken to an empty mailbox
  return the same string.\<close>

theorem timeout_and_empty_reply_counterexample:
  "strip bob \<noteq> [] \<and>
   fst (first_pop quiet_env bob (new_server empty_backend)) = [] \<and>
   \<not> fst (receive_wait quiet_env bob (new_server empty_backend)) \<and>
   fst (first_pop woken_env bob (new_server empty_backend)) = [] \<and>
   fst (receive_wait woken_env bob (new_server empty_backend)) \<and>
   fst (backend_get_messages bob
          (snd (receive_wait woken_env bob (new_server empty_backend)))) = [] \<and>
   fst (get_messages quiet_env bob (new_server empty_backend)) =
   fst (get_messages woken_env bob (new_server empty_backend))"
  using strip_bob receive_wait_quiet receive_wait_woken first_pop_empty
  by (simp add: gm_fst)

section \<open>Emitting an event\<close>

lemma attempts_last:
  "last (attempts net url payload as) = Log INFO \<or>
   last (attempts net url payload as) = Log ERROR"
proof (induction as)
  case Nil
  then show ?case by simp
next
  case (Cons a as)
  have ne: "attempts net url payload as \<noteq> []"
    by (cases as) simp_all
  show ?case
    using Cons ne by (cases "net a") simp_all
qed

text \<open>
  C5, as the code has it: an emission whose subscriber lists load and hold no
  URL for the event returns at once; one whose lists hold URLs creates one
  delivery task for each and then awaits all of them, so that by its return
  every delivery has run to its last log line, success or exhaustion after the
  retries. Whenever it returns it returns \<open>None\<close>: how it ends does not depend
  on what the deliveries met, and no outcome of them is in its result.
\<close>

theorem fire_callbacks_awaits:
  "(load_callbacks_from_config dir = Inr cbs \<and> callbacks_get cbs event_type = [] \<longrightarrow>
      fire_callbacks net dir event_type payload = ([EmitLog DEBUG], Inr ())) \<and>
   (load_callbacks_from_config dir = Inr cbs \<and> callbacks_get cbs event_type \<noteq> [] \<longrightarrow>
      fire_callbacks net dir event_type payload =
        (EmitLog INFO # map CreateTask (callbacks_get cbs event_type) @
         [Gather (map (\<lambda>url. (url, fire_single_callback (net url) url payload event_type))
                    (callbacks_get cbs event_type))], Inr ())) \<and>
   (\<forall>tasks. Gather tasks \<in> set (fst (fire_callbacks net dir event_type payload)) \<longrightarrow>
      (\<exists>loaded. load_callbacks_from_config dir = Inr loaded \<and>
         map fst tasks = callbacks_get loaded event_type) \<and>
      (\<forall>t\<in>set tasks. last (snd t) = Log INFO \<or> last (snd t) = Log ERROR)) \<and>
   snd (fire_callbacks net dir event_type payload) =
     snd (fire_callbacks net' dir event_type payload)"
proof (intro conjI impI allI)
  assume "load_callbacks_from_config dir = Inr cbs \<and> callbacks_get cbs event_type = []"
  then show "fire_callbacks net dir event_type payload = ([EmitLog DEBUG], Inr ())"
    by (simp add: fire_callbacks_def)
next
  assume "load_callbacks_from_config dir = Inr cbs \<and> callbacks_get cbs event_type \<noteq> []"
  then show "fire_callbacks net dir event_type payload =
        (EmitLog INFO # map CreateTask (callbacks_get cbs event_type) @
         [Gather (map (\<lambda>url. (url, fire_single_callback (net url) url payload event_type))
                    (callbacks_get cbs event_type))], Inr ())"
    by (simp add: fire_callbacks_def Let_def comp_def)
next
  fix tasks
  assume g: "Gather tasks \<in> set (fst (fire_callbacks net dir event_type payload))"
  then obtain loaded where l: "load_callbacks_from_config dir = Inr loaded"
    by (cases "load_callbacks_from_config dir") (simp_all add: fire_callbacks_def)
  from g have t: "tasks = map (\<lambda>url. (url, fire_single_callback (net url) url payload
                                          event_type)) (callbacks_get loaded event_type)"
    by (auto simp: fire_callbacks_def l Let_def split: if_splits)
  show "\<exists>loaded. load_callbacks_from_config dir = Inr loaded \<and>
         map fst tasks = callbacks_get loaded event_type"
    using l by (simp add: t comp_def)
  show "\<forall>t\<in>set tasks. last (snd t) = Log INFO \<or> last (snd t) = Log ERROR"
    using attempts_last by (auto simp: t fire_single_callback_def)
next
  show "snd (fire_callbacks net dir event_type payload) =
     snd (fire_callbacks net' dir event_type payload)"
    by (cases "load_callbacks_from_config dir") (simp_all add: fire_callbacks_def Let_def)
qed

lemma refused_delivery:
  "fire_single_callback (refusing_net subscriber) subscriber JNull (ascii ''connect'') =
     [Post subscriber JNull, Log WARNING, Sleep 1,
      Post subscriber JNull, Log WARNING, Sleep 2,
      Post subscriber JNull, Log WARNING, Log ERROR]"
  unfolding fire_single_callback_def upt_max_retries
  by (simp add: refusing_net_def max_retries_def retry_delays_def)

text \<open>The file lists the subscriber twice; it is loaded once.\<close>

lemma load_one_subscriber:
  "load_callbacks_from_config one_subscriber =
     Inr \<lparr>connect = [subscriber], disconnect = []\<rparr>"
  by (simp add: load_callbacks_from_config_def one_subscriber_def added_def fromkeys_def
        key_eq_def subscriber_def ascii_def)

text \<open>A list inside the connect list is met outside the two \<open>try\<close> blocks:
  the emission raises and no task is created.\<close>

lemma fire_callbacks_raises:
  "fire_callbacks net nested_subscriber (ascii ''connect'') payload = ([], Inl TypeError)"
  by (simp add: fire_callbacks_def load_callbacks_from_config_def nested_subscriber_def
        added_def fromkeys_def ascii_def)

theorem fire_callbacks_awaits_witness:
  "load_callbacks_from_config one_subscriber =
     Inr \<lparr>connect = [subscriber], disconnect = []\<rparr> \<and>
   callbacks_get \<lparr>connect = [subscriber], disconnect = []\<rparr> (ascii ''disconnect'') = [] \<and>
   fire_callbacks refusing_net one_subscriber (ascii ''disconnect'') JNull =
     ([EmitLog DEBUG], Inr ()) \<and>
   callbacks_get \<lparr>connect = [subscriber], disconnect = []\<rparr> (ascii ''connect'') \<noteq> [] \<and>
   fire_callbacks refusing_net one_subscriber (ascii ''connect'') JNull =
     ([EmitLog INFO, CreateTask subscriber,
       Gather [(subscriber,
         fire_single_callback (refusing_net subscriber) subscriber JNull (ascii ''connect''))]],
      Inr ())"
proof -
  have d: "callbacks_get \<lparr>connect = [subscriber], disconnect = []\<rparr> (ascii ''disconnect'')
             = []"
    by (simp add: callbacks_get_def ascii_def)
  have c: "callbacks_get \<lparr>connect = [subscriber], disconnect = []\<rparr> (ascii ''connect'')
             = [subscriber]"
    by (simp add: callbacks_get_def)
  show ?thesis
    using fire_callbacks_awaits
            [of one_subscriber "\<lparr>connect = [subscriber], disconnect = []\<rparr>"
                "ascii ''disconnect''" refusing_net JNull]
          fire_callbacks_awaits
            [of one_subscriber "\<lparr>connect = [subscriber], disconnect = []\<rparr>"
                "ascii ''connect''" refusing_net JNull]
    by (simp add: d c load_one_subscriber)
qed

text \<open>The claim as the spec words it fails: the emission to one subscriber that
  refuses every POST awaits the delivery, whose three attempts and two sleeps
  are over when it returns.\<close>

theorem fire_callbacks_awaits_counterexample:
  "fire_callbacks refusing_net one_subscriber (ascii ''connect'') JNull =
     ([EmitLog INFO, CreateTask subscriber,
       Gather [(subscriber,
         [Post subscriber JNull, Log WARNING, Sleep 1,
          Post subscriber JNull, Log WARNING, Sleep 2,
          Post subscriber JNull, Log WARNING, Log ERROR])]], Inr ())"
  by (simp add: fire_callbacks_def Let_def callbacks_get_def load_one_subscriber
        refused_delivery)

end
